theory Spec2Isabelle
  imports Complex_Main
begin

section \<open>JavaScript values and numbers\<close>

text \<open>
  The platform layer (src/542/platform_layer.js) works on readings whose six metric
  fields hold a number, or are missing (\<open>undefined\<close>) or \<open>null\<close>. A JavaScript
  number is modelled as \<open>real option\<close>: \<open>None\<close> is NaN, \<open>Some x\<close> a finite number.
  Finite doubles are idealised as reals (no rounding error, no infinities).
\<close>

datatype jsval = Undefined | Null | NaN | Num real

type_synonym number = "real option"

datatype error = TypeError | RangeError

fun toNumber :: "jsval \<Rightarrow> number" where
  "toNumber Undefined = None"
| "toNumber Null = Some 0"
| "toNumber NaN = None"
| "toNumber (Num x) = Some x"

definition js_lt :: "number \<Rightarrow> number \<Rightarrow> bool" where
  "js_lt a b = (case a of None \<Rightarrow> False | Some x \<Rightarrow> (case b of None \<Rightarrow> False | Some y \<Rightarrow> x < y))"

definition js_gt :: "number \<Rightarrow> number \<Rightarrow> bool" where
  "js_gt a b = (case a of None \<Rightarrow> False | Some x \<Rightarrow> (case b of None \<Rightarrow> False | Some y \<Rightarrow> x > y))"

definition js_le :: "number \<Rightarrow> number \<Rightarrow> bool" where
  "js_le a b = (case a of None \<Rightarrow> False | Some x \<Rightarrow> (case b of None \<Rightarrow> False | Some y \<Rightarrow> x \<le> y))"

definition js_ge :: "number \<Rightarrow> number \<Rightarrow> bool" where
  "js_ge a b = (case a of None \<Rightarrow> False | Some x \<Rightarrow> (case b of None \<Rightarrow> False | Some y \<Rightarrow> x \<ge> y))"

definition js_add :: "number \<Rightarrow> number \<Rightarrow> number" where
  "js_add a b = (case a of None \<Rightarrow> None | Some x \<Rightarrow> (case b of None \<Rightarrow> None | Some y \<Rightarrow> Some (x + y)))"

definition js_sub :: "number \<Rightarrow> number \<Rightarrow> number" where
  "js_sub a b = (case a of None \<Rightarrow> None | Some x \<Rightarrow> (case b of None \<Rightarrow> None | Some y \<Rightarrow> Some (x - y)))"

definition js_mul :: "number \<Rightarrow> number \<Rightarrow> number" where
  "js_mul a b = (case a of None \<Rightarrow> None | Some x \<Rightarrow> (case b of None \<Rightarrow> None | Some y \<Rightarrow> Some (x * y)))"

definition js_div :: "number \<Rightarrow> number \<Rightarrow> number" where
  \<comment> \<open>Every division of the module that can be reached has a non-zero divisor; a zero
      divisor (an infinity or NaN in JavaScript) is NaN here.\<close>
  "js_div a b = (case a of None \<Rightarrow> None | Some x \<Rightarrow>
     (case b of None \<Rightarrow> None | Some y \<Rightarrow> if y = 0 then None else Some (x / y)))"

definition js_abs :: "number \<Rightarrow> number" where
  "js_abs a = (case a of None \<Rightarrow> None | Some x \<Rightarrow> Some \<bar>x\<bar>)"

definition js_round :: "number \<Rightarrow> number" where
  \<comment> \<open>\<open>Math.round\<close>: the nearest integer, a tie going up.\<close>
  "js_round a = (case a of None \<Rightarrow> None | Some x \<Rightarrow> Some (of_int \<lfloor>x + 1 / 2\<rfloor>))"

definition js_min :: "number \<Rightarrow> number \<Rightarrow> number" where
  "js_min a b = (case a of None \<Rightarrow> None | Some x \<Rightarrow> (case b of None \<Rightarrow> None | Some y \<Rightarrow> Some (min x y)))"

definition js_max :: "number \<Rightarrow> number \<Rightarrow> number" where
  "js_max a b = (case a of None \<Rightarrow> None | Some x \<Rightarrow> (case b of None \<Rightarrow> None | Some y \<Rightarrow> Some (max x y)))"

text \<open>A comparison of a field with a numeric constant, as in \<open>data.temperature < 15\<close>.\<close>

definition lt :: "jsval \<Rightarrow> real \<Rightarrow> bool" where
  "lt v c = js_lt (toNumber v) (Some c)"

definition gt :: "jsval \<Rightarrow> real \<Rightarrow> bool" where
  "gt v c = js_gt (toNumber v) (Some c)"

definition le :: "jsval \<Rightarrow> real \<Rightarrow> bool" where
  "le v c = js_le (toNumber v) (Some c)"

definition ge :: "jsval \<Rightarrow> real \<Rightarrow> bool" where
  "ge v c = js_ge (toNumber v) (Some c)"

text \<open>
  \<open>x.toFixed(k)\<close> renders a number with \<open>k\<close> decimals, a tie going away from zero. The
  rendered text is modelled by the number it denotes (what \<open>parseFloat\<close> reads back).
\<close>

definition round_to :: "nat \<Rightarrow> real \<Rightarrow> real" where
  "round_to k x = sgn x * of_int \<lfloor>\<bar>x\<bar> * 10 ^ k + 1 / 2\<rfloor> / 10 ^ k"

definition number_toFixed :: "number \<Rightarrow> nat \<Rightarrow> number" where
  "number_toFixed a k = (case a of None \<Rightarrow> None | Some x \<Rightarrow> Some (round_to k x))"

fun toFixed :: "jsval \<Rightarrow> nat \<Rightarrow> error + number" where
  \<comment> \<open>A method call on \<open>undefined\<close> or \<open>null\<close> raises TypeError.\<close>
  "toFixed Undefined k = Inl TypeError"
| "toFixed Null k = Inl TypeError"
| "toFixed NaN k = Inr None"
| "toFixed (Num x) k = Inr (Some (round_to k x))"

definition bindE :: "'e + 'a \<Rightarrow> ('a \<Rightarrow> 'e + 'b) \<Rightarrow> 'e + 'b" where
  "bindE m f = (case m of Inl e \<Rightarrow> Inl e | Inr x \<Rightarrow> f x)"

section \<open>Readings and configuration\<close>

record reading =
  timestamp :: jsval
  time :: "string option"
  temperature :: jsval
  voltage :: jsval
  current :: jsval
  vibration :: jsval
  displacement :: jsval
  tilt :: jsval

definition reading_prop :: "reading \<Rightarrow> string \<Rightarrow> jsval" where
  \<comment> \<open>\<open>data[field]\<close> for a metric name; any other name read here is absent.\<close>
  "reading_prop d f =
     (if f = ''temperature'' then temperature d
      else if f = ''voltage'' then voltage d
      else if f = ''current'' then current d
      else if f = ''vibration'' then vibration d
      else if f = ''displacement'' then displacement d
      else if f = ''tilt'' then tilt d
      else Undefined)"

datatype metric = Temperature | Voltage | Current | Vibration | Displacement | Tilt

text \<open>\<open>config.normalRanges\<close>, \<open>config.warningThresholds\<close>, \<open>config.anomalyThresholds\<close>
  (lines 15-42). The one-sided metrics have no \<open>min\<close> threshold.\<close>

fun normal_min :: "metric \<Rightarrow> real" where
  "normal_min Temperature = 20"
| "normal_min Voltage = 32 / 10"
| "normal_min Current = 140"
| "normal_min Vibration = 0"
| "normal_min Displacement = 0"
| "normal_min Tilt = 0"

fun normal_max :: "metric \<Rightarrow> real" where
  "normal_max Temperature = 30"
| "normal_max Voltage = 34 / 10"
| "normal_max Current = 160"
| "normal_max Vibration = 1 / 10"
| "normal_max Displacement = 1"
| "normal_max Tilt = 5"

fun warning_min :: "metric \<Rightarrow> real" where
  "warning_min Temperature = 18"
| "warning_min Voltage = 3"
| "warning_min Current = 120"

fun warning_max :: "metric \<Rightarrow> real" where
  "warning_max Temperature = 32"
| "warning_max Voltage = 36 / 10"
| "warning_max Current = 180"
| "warning_max Vibration = 8 / 100"
| "warning_max Displacement = 8 / 10"
| "warning_max Tilt = 4"

fun anomaly_min :: "metric \<Rightarrow> real" where
  "anomaly_min Temperature = 15"
| "anomaly_min Voltage = 28 / 10"
| "anomaly_min Current = 100"

fun anomaly_max :: "metric \<Rightarrow> real" where
  "anomaly_max Temperature = 35"
| "anomaly_max Voltage = 38 / 10"
| "anomaly_max Current = 200"
| "anomaly_max Vibration = 9 / 100"
| "anomaly_max Displacement = 9 / 10"
| "anomaly_max Tilt = 45 / 10"

text \<open>\<open>config.healthScoreWeights\<close> (lines 52-59) and \<open>config.historyLimit\<close> (line 62).\<close>

fun healthScoreWeights :: "metric \<Rightarrow> real" where
  "healthScoreWeights Temperature = 2 / 10"
| "healthScoreWeights Voltage = 2 / 10"
| "healthScoreWeights Current = 2 / 10"
| "healthScoreWeights Vibration = 15 / 100"
| "healthScoreWeights Displacement = 15 / 100"
| "healthScoreWeights Tilt = 1 / 10"

definition historyLimit :: nat where
  "historyLimit = 1000"

text \<open>\<open>config.dataQualityParams\<close> (lines 45-49).\<close>

definition completenessThreshold :: real where "completenessThreshold = 95"
definition accuracyThreshold :: real where "accuracyThreshold = 90"
definition stabilityThreshold :: real where "stabilityThreshold = 85"

section \<open>Validator\<close>

definition requiredFields :: "string list" where
  "requiredFields = [''temperature'', ''voltage'', ''current'', ''vibration'', ''displacement'', ''tilt'']"

fun fields_present :: "reading \<Rightarrow> string list \<Rightarrow> bool" where
  \<comment> \<open>The \<open>for (const field of requiredFields)\<close> loop with its early \<open>return false\<close>.\<close>
  "fields_present d [] = True"
| "fields_present d (f # fs) =
     (if reading_prop d f = Undefined \<or> reading_prop d f = Null then False
      else fields_present d fs)"

definition validateDataCompleteness :: "reading \<Rightarrow> bool" where
  "validateDataCompleteness d = fields_present d requiredFields"

section \<open>History store\<close>

datatype anomaly_kind =
  TemperatureLow | TemperatureHigh | PressureLow | PressureHigh | ShakeLow | ShakeHigh
  | VibrationHigh | DisplacementHigh | TiltHigh

text \<open>
  A reason text is one of nine fixed wordings (lines 174-208) around the offending value
  rendered by \<open>toFixed\<close> and the threshold; the empty string is \<open>NoReason\<close>. The
  wordings for the voltage field speak of a pressure value, those for the current field of
  a degree of shaking; the constructors follow the wordings.
\<close>

datatype reason_text = NoReason | Reason anomaly_kind number real

record anomalyResult =
  isAnomaly :: bool
  reason :: reason_text

text \<open>An entry of \<open>processedDataHistory\<close>, as \<open>recordProcessedData\<close> builds it.\<close>

record entry =
  p_timestamp :: real
  p_timeString :: string
  p_data :: reading
  p_healthScore :: number
  p_isAnomaly :: bool
  p_anomalyReason :: reason_text

record anomalyEntry =
  a_timestamp :: real
  a_timeString :: string
  a_data :: reading
  a_reason :: reason_text

record healthEntry =
  h_timestamp :: real
  h_score :: number

text \<open>
  The module's private arrays, and the \<open>platform.anomaly\<close> events handed to
  \<open>window.dispatchEvent\<close> so far.
\<close>

record state =
  processedDataHistory :: "entry list"
  anomalyLog :: "anomalyEntry list"
  healthHistory :: "healthEntry list"
  dispatched :: "anomalyEntry list"

definition initial_state :: state where
  "initial_state = \<lparr>processedDataHistory = [], anomalyLog = [], healthHistory = [], dispatched = []\<rparr>"

text \<open>What the host's clock gives during one call: \<open>Date.now()\<close> and the two renderings
  \<open>toLocaleTimeString()\<close> and \<open>toLocaleString()\<close> of the current date.\<close>

record clock =
  now :: real
  localeTime :: string
  localeString :: string

definition entry_prop :: "entry \<Rightarrow> string \<Rightarrow> jsval" where
  \<comment> \<open>A property read on a history entry. Its own properties are \<open>timestamp\<close>,
      \<open>timeString\<close>, \<open>data\<close>, \<open>healthScore\<close>, \<open>isAnomaly\<close> and \<open>anomalyReason\<close>
      (lines 350-357); the numeric ones are given here, and a name that is not an own
      property reads as \<open>undefined\<close>. The four others hold a string, an object, a
      boolean and a string, and no code path reads them through a metric name.\<close>
  "entry_prop e f =
     (if f = ''timestamp'' then Num (p_timestamp e)
      else if f = ''healthScore'' then (case p_healthScore e of None \<Rightarrow> NaN | Some x \<Rightarrow> Num x)
      else Undefined)"

definition delta_exceeds :: "jsval \<Rightarrow> jsval \<Rightarrow> real \<Rightarrow> bool" where
  \<comment> \<open>\<open>Math.abs(a - b) > c\<close>\<close>
  "delta_exceeds a b c = js_gt (js_abs (js_sub (toNumber a) (toNumber b))) (Some c)"

definition validateDataAccuracy :: "state \<Rightarrow> reading \<Rightarrow> bool" where
  "validateDataAccuracy st d =
     (if lt (temperature d) (- 50) \<or> gt (temperature d) 150 then False
      else if lt (voltage d) 0 \<or> gt (voltage d) 10 then False
      else if lt (current d) 0 \<or> gt (current d) 1000 then False
      else if lt (vibration d) 0 \<or> gt (vibration d) 1 then False
      else if lt (displacement d) 0 \<or> gt (displacement d) 10 then False
      else if lt (tilt d) 0 \<or> gt (tilt d) 90 then False
      else if length (processedDataHistory st) > 0 then
        (let lastData = last (processedDataHistory st) in
         if delta_exceeds (temperature d) (entry_prop lastData ''temperature'') 5 then False
         else if delta_exceeds (voltage d) (entry_prop lastData ''voltage'') (5 / 10) then False
         else if delta_exceeds (current d) (entry_prop lastData ''current'') 50 then False
         else if delta_exceeds (vibration d) (entry_prop lastData ''vibration'') (5 / 100) then False
         else if delta_exceeds (displacement d) (entry_prop lastData ''displacement'') (5 / 10) then False
         else if delta_exceeds (tilt d) (entry_prop lastData ''tilt'') 2 then False
         else True)
      else True)"

section \<open>Anomaly detector\<close>

definition flag :: "anomaly_kind \<Rightarrow> jsval \<Rightarrow> nat \<Rightarrow> real \<Rightarrow> error + anomalyResult" where
  \<comment> \<open>The two assignments of a branch: \<open>isAnomaly = true\<close>, and the reason text, whose
      template calls \<open>toFixed\<close> on the field.\<close>
  "flag k v digits bound =
     bindE (toFixed v digits) (\<lambda>t. Inr \<lparr>isAnomaly = True, reason = Reason k t bound\<rparr>)"

definition detectAnomaly :: "reading \<Rightarrow> error + anomalyResult" where
  "detectAnomaly d =
     bindE (if lt (temperature d) (anomaly_min Temperature)
              then flag TemperatureLow (temperature d) 1 (anomaly_min Temperature)
            else if gt (temperature d) (anomaly_max Temperature)
              then flag TemperatureHigh (temperature d) 1 (anomaly_max Temperature)
            else Inr \<lparr>isAnomaly = False, reason = NoReason\<rparr>)
     (\<lambda>r1. bindE (if lt (voltage d) (anomaly_min Voltage)
              then flag PressureLow (voltage d) 2 (anomaly_min Voltage)
            else if gt (voltage d) (anomaly_max Voltage)
              then flag PressureHigh (voltage d) 2 (anomaly_max Voltage)
            else Inr r1)
     (\<lambda>r2. bindE (if lt (current d) (anomaly_min Current)
              then flag ShakeLow (current d) 1 (anomaly_min Current)
            else if gt (current d) (anomaly_max Current)
              then flag ShakeHigh (current d) 1 (anomaly_max Current)
            else Inr r2)
     (\<lambda>r3. bindE (if gt (vibration d) (anomaly_max Vibration)
              then flag VibrationHigh (vibration d) 3 (anomaly_max Vibration)
            else Inr r3)
     (\<lambda>r4. bindE (if gt (displacement d) (anomaly_max Displacement)
              then flag DisplacementHigh (displacement d) 2 (anomaly_max Displacement)
            else Inr r4)
     (\<lambda>r5. if gt (tilt d) (anomaly_max Tilt)
              then flag TiltHigh (tilt d) 2 (anomaly_max Tilt)
            else Inr r5)))))"

section \<open>Health scorer\<close>

definition calculateMetricScore :: "jsval \<Rightarrow> real \<Rightarrow> real \<Rightarrow> real \<Rightarrow> real \<Rightarrow> number" where
  "calculateMetricScore v normalMin normalMax anomalyMin anomalyMax =
     (if ge v normalMin \<and> le v normalMax then Some 100
      else if ge v anomalyMin \<and> le v anomalyMax then
        (if lt v normalMin then
           (let range = Some (normalMin - anomalyMin);
                distance = js_sub (Some normalMin) (toNumber v)
            in js_sub (Some 100) (js_mul (js_div distance range) (Some 100)))
         else
           (let range = Some (anomalyMax - normalMax);
                distance = js_sub (toNumber v) (Some normalMax)
            in js_sub (Some 100) (js_mul (js_div distance range) (Some 100))))
      else Some 0)"

definition calculateUpperBoundScore :: "jsval \<Rightarrow> real \<Rightarrow> real \<Rightarrow> number" where
  "calculateUpperBoundScore v normalMax anomalyMax =
     (if le v normalMax then Some 100
      else if le v anomalyMax then
        (let range = Some (anomalyMax - normalMax);
             distance = js_sub (toNumber v) (Some normalMax)
         in js_sub (Some 100) (js_mul (js_div distance range) (Some 100)))
      else Some 0)"

definition penalise :: "number \<Rightarrow> number \<Rightarrow> metric \<Rightarrow> number" where
  \<comment> \<open>\<open>score -= (100 - metricScore) * weight\<close>\<close>
  "penalise score metricScore m =
     js_sub score (js_mul (js_sub (Some 100) metricScore) (Some (healthScoreWeights m)))"

definition weighted_score :: "reading \<Rightarrow> number" where
  \<comment> \<open>The running \<open>score\<close> of \<open>calculateHealthScore\<close> before rounding and clamping.\<close>
  "weighted_score d =
     (let score = Some 100;
          tempScore = calculateMetricScore (temperature d) (normal_min Temperature)
             (normal_max Temperature) (anomaly_min Temperature) (anomaly_max Temperature);
          score = penalise score tempScore Temperature;
          voltageScore = calculateMetricScore (voltage d) (normal_min Voltage)
             (normal_max Voltage) (anomaly_min Voltage) (anomaly_max Voltage);
          score = penalise score voltageScore Voltage;
          currentScore = calculateMetricScore (current d) (normal_min Current)
             (normal_max Current) (anomaly_min Current) (anomaly_max Current);
          score = penalise score currentScore Current;
          vibrationScore = calculateUpperBoundScore (vibration d) (normal_max Vibration)
             (anomaly_max Vibration);
          score = penalise score vibrationScore Vibration;
          displacementScore = calculateUpperBoundScore (displacement d)
             (normal_max Displacement) (anomaly_max Displacement);
          score = penalise score displacementScore Displacement;
          tiltScore = calculateUpperBoundScore (tilt d) (normal_max Tilt) (anomaly_max Tilt);
          score = penalise score tiltScore Tilt
      in score)"

definition calculateHealthScore :: "reading \<Rightarrow> number" where
  "calculateHealthScore d = js_max (Some 0) (js_min (Some 100) (js_round (weighted_score d)))"

text \<open>The five status texts of \<open>determineHealthStatus\<close> (lines 322-342), the text of the
  insufficient-data report (line 418), and the colour classes that go with them.\<close>

datatype status_text = Excellent | Good | Normal | Warning | Danger | InsufficientData

datatype colour = Green500 | Green400 | Blue400 | Yellow500 | Red500 | Gray500

record healthStatus =
  s_text :: status_text
  s_color :: colour

definition determineHealthStatus :: "number \<Rightarrow> healthStatus" where
  "determineHealthStatus score =
     (if js_ge score (Some 90) then \<lparr>s_text = Excellent, s_color = Green500\<rparr>
      else if js_ge score (Some 80) then \<lparr>s_text = Good, s_color = Green400\<rparr>
      else if js_ge score (Some 70) then \<lparr>s_text = Normal, s_color = Blue400\<rparr>
      else if js_ge score (Some 60) then \<lparr>s_text = Warning, s_color = Yellow500\<rparr>
      else \<lparr>s_text = Danger, s_color = Red500\<rparr>)"

section \<open>Ingest pipeline\<close>

definition or_now :: "jsval \<Rightarrow> real \<Rightarrow> real" where
  \<comment> \<open>\<open>data.timestamp || Date.now()\<close>: \<open>undefined\<close>, \<open>null\<close>, NaN and 0 are falsy.\<close>
  "or_now v t = (case v of Num x \<Rightarrow> if x = 0 then t else x | _ \<Rightarrow> t)"

definition or_localeTime :: "string option \<Rightarrow> string \<Rightarrow> string" where
  \<comment> \<open>\<open>data.time || new Date().toLocaleTimeString()\<close>: a missing or empty text is falsy.\<close>
  "or_localeTime v t = (case v of None \<Rightarrow> t | Some s \<Rightarrow> if s = [] then t else s)"

definition push_limit :: "nat \<Rightarrow> 'a list \<Rightarrow> 'a \<Rightarrow> 'a list" where
  \<comment> \<open>\<open>log.push(x); if (log.length > limit) log.shift();\<close>\<close>
  "push_limit limit xs x =
     (let xs' = xs @ [x] in if length xs' > limit then tl xs' else xs')"

definition recordProcessedData :: "clock \<Rightarrow> state \<Rightarrow> reading \<Rightarrow> number \<Rightarrow> anomalyResult \<Rightarrow> state" where
  "recordProcessedData c st d healthScore anomalyRes =
     st\<lparr>processedDataHistory := push_limit historyLimit (processedDataHistory st)
          \<lparr>p_timestamp = or_now (timestamp d) (now c),
           p_timeString = or_localeTime (time d) (localeTime c),
           p_data = d,
           p_healthScore = healthScore,
           p_isAnomaly = isAnomaly anomalyRes,
           p_anomalyReason = reason anomalyRes\<rparr>\<rparr>"

definition recordHealthHistory :: "clock \<Rightarrow> state \<Rightarrow> number \<Rightarrow> state" where
  "recordHealthHistory c st score =
     st\<lparr>healthHistory := push_limit historyLimit (healthHistory st)
          \<lparr>h_timestamp = now c, h_score = score\<rparr>\<rparr>"

definition anomaly_record :: "clock \<Rightarrow> reading \<Rightarrow> reason_text \<Rightarrow> anomalyEntry" where
  "anomaly_record c d r =
     \<lparr>a_timestamp = or_now (timestamp d) (now c),
      a_timeString = or_localeTime (time d) (localeTime c),
      a_data = d,
      a_reason = r\<rparr>"

definition logAnomaly :: "clock \<Rightarrow> state \<Rightarrow> reading \<Rightarrow> reason_text \<Rightarrow> state" where
  \<comment> \<open>The cap of the anomaly log is the literal 1000 (line 388).\<close>
  "logAnomaly c st d r = st\<lparr>anomalyLog := push_limit 1000 (anomalyLog st) (anomaly_record c d r)\<rparr>"

definition triggerAnomalyEvent :: "clock \<Rightarrow> state \<Rightarrow> reading \<Rightarrow> reason_text \<Rightarrow> state" where
  "triggerAnomalyEvent c st d r = st\<lparr>dispatched := dispatched st @ [anomaly_record c d r]\<rparr>"

record result =
  r_rawData :: reading
  r_isComplete :: bool
  r_isAccurate :: bool
  r_isAnomaly :: bool
  r_anomalyReason :: reason_text
  r_healthScore :: number
  r_healthStatus :: healthStatus

definition receiveData :: "clock \<Rightarrow> state \<Rightarrow> reading \<Rightarrow> error + (result \<times> state)" where
  "receiveData c st rawData =
     (let isComplete = validateDataCompleteness rawData;
          isAccurate = validateDataAccuracy st rawData
      in bindE (detectAnomaly rawData) (\<lambda>anomalyRes.
         let healthScore = calculateHealthScore rawData;
             status = determineHealthStatus healthScore;
             st1 = recordProcessedData c st rawData healthScore anomalyRes;
             res = \<lparr>r_rawData = rawData, r_isComplete = isComplete, r_isAccurate = isAccurate,
                    r_isAnomaly = isAnomaly anomalyRes, r_anomalyReason = reason anomalyRes,
                    r_healthScore = healthScore, r_healthStatus = status\<rparr>;
             st2 = (if isAnomaly anomalyRes
                    then triggerAnomalyEvent c (logAnomaly c st1 rawData (reason anomalyRes))
                           rawData (reason anomalyRes)
                    else st1);
             st3 = recordHealthHistory c st2 healthScore
         in Inr (res, st3)))"

text \<open>
  A run of the pipeline over a stream of readings, each with the clock of its call. A call
  that raises leaves the arrays as they were (the raise is in \<open>detectAnomaly\<close>, before
  the first \<open>push\<close>), and the stream goes on with the next reading.
\<close>

fun ingest_all :: "state \<Rightarrow> (clock \<times> reading) list \<Rightarrow> state" where
  "ingest_all st [] = st"
| "ingest_all st ((c, d) # rest) =
     (case receiveData c st d of Inl e \<Rightarrow> ingest_all st rest
      | Inr (res, st') \<Rightarrow> ingest_all st' rest)"

section \<open>Report engine\<close>

subsection \<open>Statistics helpers\<close>

definition js_sqrt :: "number \<Rightarrow> number" where
  "js_sqrt a = (case a of None \<Rightarrow> None | Some x \<Rightarrow> if x < 0 then None else Some (sqrt x))"

definition calculateMean :: "number list \<Rightarrow> number" where
  "calculateMean values =
     (if length values = 0 then Some 0
      else js_div (foldl js_add (Some 0) values) (Some (real (length values))))"

definition calculateStandardDeviation :: "number list \<Rightarrow> number" where
  "calculateStandardDeviation values =
     (if length values = 0 then Some 0
      else (let mean = calculateMean values;
                squaredDifferences = map (\<lambda>v. js_mul (js_sub v mean) (js_sub v mean)) values;
                variance = calculateMean squaredDifferences
            in js_sqrt variance))"

definition calculateCoefficientOfVariation :: "number list \<Rightarrow> number" where
  "calculateCoefficientOfVariation values =
     (if length values = 0 then Some 0
      else (let mean = calculateMean values in
            if mean = Some 0 then Some 0
            else js_div (calculateStandardDeviation values) mean))"

definition math_min :: "number list \<Rightarrow> number" where
  \<comment> \<open>\<open>Math.min(...values)\<close> of a non-empty array (the callers check the length).\<close>
  "math_min values = foldl js_min (hd values) (tl values)"

definition math_max :: "number list \<Rightarrow> number" where
  "math_max values = foldl js_max (hd values) (tl values)"

definition metric_values :: "state \<Rightarrow> (reading \<Rightarrow> jsval) \<Rightarrow> number list" where
  \<comment> \<open>\<open>processedDataHistory.map(item => item.data.<metric>)\<close>; every use of the values is
      arithmetic, which reads a field through \<open>ToNumber\<close>.\<close>
  "metric_values st f = map (\<lambda>item. toNumber (f (p_data item))) (processedDataHistory st)"

subsection \<open>Health report\<close>

record metricStats =
  mean :: number
  stdDev :: number
  minimum :: number
  maximum :: number

record keyMetrics =
  km_temperature :: metricStats
  km_voltage :: metricStats
  km_current :: metricStats
  km_vibration :: metricStats
  km_displacement :: metricStats
  km_tilt :: metricStats

definition stats :: "number list \<Rightarrow> nat \<Rightarrow> nat \<Rightarrow> metricStats" where
  \<comment> \<open>The four \<open>toFixed\<close> renderings of one metric: \<open>k\<close> decimals for mean, min and max,
      \<open>k'\<close> for the standard deviation.\<close>
  "stats values k k' =
     \<lparr>mean = number_toFixed (calculateMean values) k,
      stdDev = number_toFixed (calculateStandardDeviation values) k',
      minimum = number_toFixed (math_min values) k,
      maximum = number_toFixed (math_max values) k\<rparr>"

definition calculateKeyMetrics :: "state \<Rightarrow> keyMetrics option" where
  \<comment> \<open>\<open>None\<close> is the empty object \<open>{}\<close>.\<close>
  "calculateKeyMetrics st =
     (if length (processedDataHistory st) = 0 then None
      else Some
        \<lparr>km_temperature = stats (metric_values st temperature) 1 2,
         km_voltage = stats (metric_values st voltage) 2 3,
         km_current = stats (metric_values st current) 1 2,
         km_vibration = stats (metric_values st vibration) 3 4,
         km_displacement = stats (metric_values st displacement) 2 3,
         km_tilt = stats (metric_values st tilt) 2 3\<rparr>)"

text \<open>The issue texts (lines 561-625 and 425), each a fixed wording around a number.\<close>

datatype issue =
  TemperatureMeanLow number | TemperatureMeanHigh number
  | PressureMeanLow number | PressureMeanHigh number
  | ShakeMeanLow number | ShakeMeanHigh number
  | VibrationMeanHigh number | DisplacementMeanHigh number | TiltMeanHigh number
  | AnomalyRateHigh number | HealthScoreLow number | HealthTrendFalling number
  | NotEnoughData

text \<open>The advisory texts (lines 636-670 and 426).\<close>

datatype recommendation =
  OperatingNormally
  | AdviseTemperatureLow | AdviseTemperatureHigh | AdvisePressureLow | AdvisePressureHigh
  | AdviseShakeLow | AdviseShakeHigh | AdviseVibrationHigh | AdviseDisplacementHigh
  | AdviseTiltHigh | AdviseAnomalyRate | AdviseHealthScore | AdviseHealthTrend
  | AdviseRegularReports
  | CollectMoreData

datatype duration = DurationInsufficient | DurationMinutes number | DurationHoursMinutes number number

record healthScoreInfo =
  hs_current :: number
  hs_average :: number
  hs_trend :: number
  hs_status :: healthStatus

record anomalyStats =
  as_count :: nat
  as_rate :: number

record healthReport =
  hr_timeString :: string
  hr_duration :: duration
  hr_healthScore :: healthScoreInfo
  hr_anomalyStats :: anomalyStats
  hr_keyMetrics :: "keyMetrics option"
  hr_issues :: "issue list"
  hr_recommendations :: "recommendation list"

definition insufficientHealthReport :: "clock \<Rightarrow> healthReport" where
  \<comment> \<open>The report of lines 411-427.\<close>
  "insufficientHealthReport c =
     \<lparr>hr_timeString = localeString c,
      hr_duration = DurationInsufficient,
      hr_healthScore = \<lparr>hs_current = Some 0, hs_average = Some 0, hs_trend = Some 0,
                        hs_status = \<lparr>s_text = InsufficientData, s_color = Gray500\<rparr>\<rparr>,
      hr_anomalyStats = \<lparr>as_count = 0, as_rate = Some 0\<rparr>,
      hr_keyMetrics = None,
      hr_issues = [NotEnoughData],
      hr_recommendations = [CollectMoreData]\<rparr>"

definition two_sided_issue :: "number \<Rightarrow> real \<Rightarrow> real \<Rightarrow> (number \<Rightarrow> issue) \<Rightarrow> (number \<Rightarrow> issue) \<Rightarrow> issue list" where
  \<comment> \<open>\<open>if (m < min) push(low) else if (m > max) push(high)\<close>, on the parsed mean.\<close>
  "two_sided_issue m lo hi low high =
     (if js_lt m (Some lo) then [low m] else if js_gt m (Some hi) then [high m] else [])"

definition one_sided_issue :: "number \<Rightarrow> real \<Rightarrow> (number \<Rightarrow> issue) \<Rightarrow> issue list" where
  "one_sided_issue m hi high = (if js_gt m (Some hi) then [high m] else [])"

definition metric_issues :: "keyMetrics option \<Rightarrow> issue list" where
  \<comment> \<open>The six \<open>if (keyMetrics.<metric>)\<close> blocks of \<open>detectIssues\<close>, in order.\<close>
  "metric_issues km =
     (case km of None \<Rightarrow> []
      | Some k \<Rightarrow>
          two_sided_issue (mean (km_temperature k)) (warning_min Temperature)
             (warning_max Temperature) TemperatureMeanLow TemperatureMeanHigh
          @ two_sided_issue (mean (km_voltage k)) (warning_min Voltage)
             (warning_max Voltage) PressureMeanLow PressureMeanHigh
          @ two_sided_issue (mean (km_current k)) (warning_min Current)
             (warning_max Current) ShakeMeanLow ShakeMeanHigh
          @ one_sided_issue (mean (km_vibration k)) (warning_max Vibration) VibrationMeanHigh
          @ one_sided_issue (mean (km_displacement k)) (warning_max Displacement) DisplacementMeanHigh
          @ one_sided_issue (mean (km_tilt k)) (warning_max Tilt) TiltMeanHigh)"

definition anomaly_rate :: "state \<Rightarrow> number" where
  \<comment> \<open>\<open>(anomalyLog.length / processedDataHistory.length * 100).toFixed(2)\<close>\<close>
  "anomaly_rate st =
     number_toFixed (js_mul (js_div (Some (real (length (anomalyLog st))))
        (Some (real (length (processedDataHistory st))))) (Some 100)) 2"

fun advise :: "issue \<Rightarrow> recommendation list" where
  \<comment> \<open>The \<open>issue.includes(...)\<close> chain: each wording holds exactly one of the phrases; the
      insufficient-data wording holds none.\<close>
  "advise (TemperatureMeanLow _) = [AdviseTemperatureLow]"
| "advise (TemperatureMeanHigh _) = [AdviseTemperatureHigh]"
| "advise (PressureMeanLow _) = [AdvisePressureLow]"
| "advise (PressureMeanHigh _) = [AdvisePressureHigh]"
| "advise (ShakeMeanLow _) = [AdviseShakeLow]"
| "advise (ShakeMeanHigh _) = [AdviseShakeHigh]"
| "advise (VibrationMeanHigh _) = [AdviseVibrationHigh]"
| "advise (DisplacementMeanHigh _) = [AdviseDisplacementHigh]"
| "advise (TiltMeanHigh _) = [AdviseTiltHigh]"
| "advise (AnomalyRateHigh _) = [AdviseAnomalyRate]"
| "advise (HealthScoreLow _) = [AdviseHealthScore]"
| "advise (HealthTrendFalling _) = [AdviseHealthTrend]"
| "advise NotEnoughData = []"

definition generateRecommendations :: "issue list \<Rightarrow> recommendation list" where
  "generateRecommendations issues =
     (if length issues = 0 then [OperatingNormally]
      else concat (map advise issues) @ [AdviseRegularReports])"

definition date_ms :: "real \<Rightarrow> real" where
  \<comment> \<open>\<open>new Date(t)\<close> keeps the integer part of the time value.\<close>
  "date_ms t = (if 0 \<le> t then of_int \<lfloor>t\<rfloor> else of_int \<lceil>t\<rceil>)"

definition health_trend :: "state \<Rightarrow> number" where
  \<comment> \<open>Lines 436-447. The rendered trend is modelled by the number it denotes.\<close>
  "health_trend st =
     (let h = processedDataHistory st;
          healthScores = map p_healthScore h in
      if length healthScores \<ge> 10 then
        (let recentScores = drop (length healthScores - 10) healthScores;
             firstScore = recentScores ! 0;
             lastScore = recentScores ! (length recentScores - 1);
             timeDiff = (p_timestamp (h ! (length h - 1)) - p_timestamp (h ! (length h - 10))) / 60000
         in if timeDiff > 0
            then number_toFixed (js_div (js_sub lastScore firstScore) (Some timeDiff)) 2
            else Some 0)
      else Some 0)"

definition report_duration :: "state \<Rightarrow> duration" where
  \<comment> \<open>Lines 466-471.\<close>
  "report_duration st =
     (let h = processedDataHistory st;
          startTime = date_ms (p_timestamp (h ! 0));
          endTime = date_ms (p_timestamp (h ! (length h - 1)));
          durationMinutes = of_int \<lfloor>(endTime - startTime) / 60000 + 1 / 2\<rfloor> :: real
      in if durationMinutes < 60 then DurationMinutes (Some durationMinutes)
         else DurationHoursMinutes (Some (of_int \<lfloor>durationMinutes / 60\<rfloor>))
                (Some (durationMinutes - 60 * of_int \<lfloor>durationMinutes / 60\<rfloor>)))"

text \<open>
  \<open>generateHealthReport\<close> calls \<open>detectIssues\<close> (line 460), and \<open>detectIssues\<close> calls
  \<open>generateHealthReport\<close> (line 618). The first argument is the number of call frames
  the JavaScript stack still has room for: a call made with none left raises
  \<open>RangeError\<close> (maximum call stack size exceeded).
\<close>

fun generateHealthReport :: "nat \<Rightarrow> clock \<Rightarrow> state \<Rightarrow> error + healthReport"
  and detectIssues :: "nat \<Rightarrow> clock \<Rightarrow> state \<Rightarrow> keyMetrics option \<Rightarrow> error + issue list" where
  "generateHealthReport 0 c st = Inl RangeError"
| "generateHealthReport (Suc n) c st =
     (if length (processedDataHistory st) < 10 then Inr (insufficientHealthReport c)
      else
        (let healthScores = map p_healthScore (processedDataHistory st);
             currentHealthScore = healthScores ! (length healthScores - 1);
             avgHealthScore = js_div (foldl js_add (Some 0) healthScores)
                                (Some (real (length healthScores)));
             healthTrend = health_trend st;
             status = determineHealthStatus currentHealthScore;
             anomalyCount = length (anomalyLog st);
             anomalyRate = anomaly_rate st;
             keyMetrics = calculateKeyMetrics st
         in bindE (detectIssues n c st keyMetrics) (\<lambda>issues.
            let recommendations = generateRecommendations issues;
                duration = report_duration st
            in Inr \<lparr>hr_timeString = localeString c,
                    hr_duration = duration,
                    hr_healthScore = \<lparr>hs_current = currentHealthScore, hs_average = avgHealthScore,
                                      hs_trend = healthTrend, hs_status = status\<rparr>,
                    hr_anomalyStats = \<lparr>as_count = anomalyCount, as_rate = anomalyRate\<rparr>,
                    hr_keyMetrics = keyMetrics,
                    hr_issues = issues,
                    hr_recommendations = recommendations\<rparr>)))"
| "detectIssues 0 c st keyMetrics = Inl RangeError"
| "detectIssues (Suc n) c st keyMetrics =
     (let issues = metric_issues keyMetrics;
          anomalyRate = anomaly_rate st;
          issues = (if js_gt anomalyRate (Some 5) then issues @ [AnomalyRateHigh anomalyRate]
                    else issues)
      in bindE (generateHealthReport n c st) (\<lambda>healthReport.
         let issues = (if js_lt (hs_current (hr_healthScore healthReport)) (Some 80)
                       then issues @ [HealthScoreLow (hs_current (hr_healthScore healthReport))]
                       else issues);
             issues = (if js_lt (hs_trend (hr_healthScore healthReport)) (Some (- (5 / 10)))
                       then issues @ [HealthTrendFalling (js_abs (hs_trend (hr_healthScore healthReport)))]
                       else issues)
         in Inr issues))"

subsection \<open>Data quality report\<close>

record subscore =
  q_value :: number
  q_score :: number

definition percentage_score :: "nat \<Rightarrow> nat \<Rightarrow> subscore" where
  \<comment> \<open>\<open>p = (count / length * 100).toFixed(1)\<close> and
      \<open>score = Math.min(100, Math.max(0, Math.round(p)))\<close>\<close>
  "percentage_score n len =
     (let p = number_toFixed (js_mul (js_div (Some (real n)) (Some (real len))) (Some 100)) 1
      in \<lparr>q_value = p, q_score = js_min (Some 100) (js_max (Some 0) (js_round p))\<rparr>)"

fun count_complete :: "entry list \<Rightarrow> nat \<Rightarrow> nat" where
  \<comment> \<open>The loop of lines 760-773 over the history, \<open>completeCount\<close> as accumulator; the
      inner loop leaves at the first missing field.\<close>
  "count_complete [] completeCount = completeCount"
| "count_complete (item # items) completeCount =
     count_complete items
       (if fields_present (p_data item) requiredFields then completeCount + 1 else completeCount)"

definition calculateDataCompleteness :: "state \<Rightarrow> subscore" where
  "calculateDataCompleteness st =
     (if length (processedDataHistory st) = 0 then \<lparr>q_value = Some 0, q_score = Some 0\<rparr>
      else percentage_score (count_complete (processedDataHistory st) 0)
             (length (processedDataHistory st)))"

fun count_accurate :: "state \<Rightarrow> entry list \<Rightarrow> nat \<Rightarrow> nat" where
  \<comment> \<open>The loop of lines 798-802, \<open>accurateCount\<close> as accumulator. Every call of
      \<open>validateDataAccuracy\<close> reads the same, unchanged, module state.\<close>
  "count_accurate st [] accurateCount = accurateCount"
| "count_accurate st (item # items) accurateCount =
     count_accurate st items
       (if validateDataAccuracy st (p_data item) then accurateCount + 1 else accurateCount)"

definition calculateDataAccuracy :: "state \<Rightarrow> subscore" where
  "calculateDataAccuracy st =
     (if length (processedDataHistory st) = 0 then \<lparr>q_value = Some 0, q_score = Some 0\<rparr>
      else percentage_score (count_accurate st (processedDataHistory st) 0)
             (length (processedDataHistory st)))"

definition calculateDataStability :: "state \<Rightarrow> subscore" where
  "calculateDataStability st =
     (if length (processedDataHistory st) < 10 then \<lparr>q_value = Some 0, q_score = Some 0\<rparr>
      else
        (let tempCV = calculateCoefficientOfVariation (metric_values st temperature);
             voltageCV = calculateCoefficientOfVariation (metric_values st voltage);
             currentCV = calculateCoefficientOfVariation (metric_values st current);
             vibrationCV = calculateCoefficientOfVariation (metric_values st vibration);
             displacementCV = calculateCoefficientOfVariation (metric_values st displacement);
             tiltCV = calculateCoefficientOfVariation (metric_values st tilt);
             avgCV = js_div (js_add (js_add (js_add (js_add (js_add tempCV voltageCV) currentCV)
                        vibrationCV) displacementCV) tiltCV) (Some 6);
             maxCV = Some (1 / 10);
             stabilityScore = js_round (js_mul (js_sub (Some 1) (js_min (js_div avgCV maxCV) (Some 1)))
                                 (Some 100));
             stabilityScore = js_max (Some 0) (js_min (Some 100) stabilityScore)
         in \<lparr>q_value = number_toFixed stabilityScore 1, q_score = stabilityScore\<rparr>))"

datatype quality_name = QualityExcellent | QualityGood | QualityFair | QualityPoor | QualityBad
  | QualityInsufficient

record qualityLevel =
  ql_name :: quality_name
  ql_color :: colour

datatype quality_advice =
  CompletenessLow number | AccuracyLow number | StabilityLow number | QualityFine
  | QualityNotEnoughData

record qualityMetrics =
  completeness :: subscore
  accuracy :: subscore
  stability :: subscore

record dataQualityReport =
  dataQualityScore :: number
  dq_qualityLevel :: qualityLevel
  dq_metrics :: "qualityMetrics option"
  dq_recommendations :: "quality_advice list"

definition insufficientQualityReport :: dataQualityReport where
  \<comment> \<open>The report of lines 679-687.\<close>
  "insufficientQualityReport =
     \<lparr>dataQualityScore = Some 0,
      dq_qualityLevel = \<lparr>ql_name = QualityInsufficient, ql_color = Gray500\<rparr>,
      dq_metrics = None,
      dq_recommendations = [QualityNotEnoughData]\<rparr>"

definition generateDataQualityRecommendations :: "subscore \<Rightarrow> subscore \<Rightarrow> subscore \<Rightarrow> quality_advice list" where
  "generateDataQualityRecommendations c a s =
     (if js_lt (q_score c) (Some completenessThreshold) then [CompletenessLow (q_value c)] else [])
     @ (if js_lt (q_score a) (Some accuracyThreshold) then [AccuracyLow (q_value a)] else [])
     @ (if js_lt (q_score s) (Some stabilityThreshold) then [StabilityLow (q_value s)] else [])
     @ (if js_ge (q_score c) (Some completenessThreshold)
           \<and> js_ge (q_score a) (Some accuracyThreshold)
           \<and> js_ge (q_score s) (Some stabilityThreshold) then [QualityFine] else [])"

definition generateDataQualityReport :: "state \<Rightarrow> dataQualityReport" where
  "generateDataQualityReport st =
     (if length (processedDataHistory st) < 10 then insufficientQualityReport
      else
        (let c = calculateDataCompleteness st;
             a = calculateDataAccuracy st;
             s = calculateDataStability st;
             score = js_round (js_div (js_add (js_add (q_score c) (q_score a)) (q_score s)) (Some 3));
             level = (if js_ge score (Some 90) then \<lparr>ql_name = QualityExcellent, ql_color = Green500\<rparr>
                      else if js_ge score (Some 80) then \<lparr>ql_name = QualityGood, ql_color = Green400\<rparr>
                      else if js_ge score (Some 70) then \<lparr>ql_name = QualityFair, ql_color = Blue400\<rparr>
                      else if js_ge score (Some 60) then \<lparr>ql_name = QualityPoor, ql_color = Yellow500\<rparr>
                      else \<lparr>ql_name = QualityBad, ql_color = Red500\<rparr>)
         in \<lparr>dataQualityScore = score,
             dq_qualityLevel = level,
             dq_metrics = Some \<lparr>completeness = c, accuracy = a, stability = s\<rparr>,
             dq_recommendations = generateDataQualityRecommendations c a s\<rparr>))"

section \<open>Sample inputs\<close>

text \<open>The all-normal reading of the spec's first scenario, and a clock.\<close>

definition normal_reading :: reading where
  "normal_reading =
     \<lparr>timestamp = Undefined, time = None, temperature = Num 25, voltage = Num (33 / 10),
      current = Num 150, vibration = Num (5 / 100), displacement = Num (5 / 10), tilt = Num 2\<rparr>"

definition clock0 :: clock where
  "clock0 = \<lparr>now = 1000, localeTime = ''12:00:00'', localeString = ''2024/1/1 12:00:00''\<rparr>"

definition normal_entry :: "clock \<Rightarrow> entry" where
  \<comment> \<open>The history entry that \<open>normal_reading\<close> leaves.\<close>
  "normal_entry c =
     \<lparr>p_timestamp = now c, p_timeString = localeTime c, p_data = normal_reading,
      p_healthScore = Some 100, p_isAnomaly = False, p_anomalyReason = NoReason\<rparr>"

definition two_anomalies :: reading where
  \<comment> \<open>Temperature above its anomaly maximum 35 and tilt above its anomaly maximum 4.5.\<close>
  "two_anomalies = normal_reading\<lparr>temperature := Num 40, tilt := Num 10\<rparr>"

section \<open>Notions used to state the properties\<close>

text \<open>
  The reason text a metric's branch of \<open>detectAnomaly\<close> writes when the metric is out of
  its anomaly bounds, and \<open>None\<close> when it is within them.
\<close>

definition two_sided_violation ::
    "jsval \<Rightarrow> nat \<Rightarrow> real \<Rightarrow> real \<Rightarrow> anomaly_kind \<Rightarrow> anomaly_kind \<Rightarrow> reason_text option" where
  "two_sided_violation v digits lo hi low high =
     (if lt v lo then Some (Reason low (number_toFixed (toNumber v) digits) lo)
      else if gt v hi then Some (Reason high (number_toFixed (toNumber v) digits) hi)
      else None)"

definition one_sided_violation :: "jsval \<Rightarrow> nat \<Rightarrow> real \<Rightarrow> anomaly_kind \<Rightarrow> reason_text option" where
  "one_sided_violation v digits hi high =
     (if gt v hi then Some (Reason high (number_toFixed (toNumber v) digits) hi) else None)"

fun out_of_bounds :: "reading \<Rightarrow> metric \<Rightarrow> reason_text option" where
  "out_of_bounds d Temperature = two_sided_violation (temperature d) 1
      (anomaly_min Temperature) (anomaly_max Temperature) TemperatureLow TemperatureHigh"
| "out_of_bounds d Voltage = two_sided_violation (voltage d) 2
      (anomaly_min Voltage) (anomaly_max Voltage) PressureLow PressureHigh"
| "out_of_bounds d Current = two_sided_violation (current d) 1
      (anomaly_min Current) (anomaly_max Current) ShakeLow ShakeHigh"
| "out_of_bounds d Vibration = one_sided_violation (vibration d) 3 (anomaly_max Vibration) VibrationHigh"
| "out_of_bounds d Displacement =
      one_sided_violation (displacement d) 2 (anomaly_max Displacement) DisplacementHigh"
| "out_of_bounds d Tilt = one_sided_violation (tilt d) 2 (anomaly_max Tilt) TiltHigh"

definition evaluation_order :: "metric list" where
  "evaluation_order = [Temperature, Voltage, Current, Vibration, Displacement, Tilt]"

definition violations :: "reading \<Rightarrow> reason_text list" where
  \<comment> \<open>The reasons of all metrics out of bounds, in the evaluation order.\<close>
  "violations d = List.map_filter (out_of_bounds d) evaluation_order"

definition mark :: "reading \<Rightarrow> anomalyResult \<Rightarrow> metric \<Rightarrow> anomalyResult" where
  \<comment> \<open>One metric's block of \<open>detectAnomaly\<close> when it does not raise: a metric out of
      bounds overwrites the flag and the reason, another leaves them.\<close>
  "mark d r m = (case out_of_bounds d m of None \<Rightarrow> r | Some t \<Rightarrow> \<lparr>isAnomaly = True, reason = t\<rparr>)"

definition bounded :: "state \<Rightarrow> bool" where
  \<comment> \<open>No log is longer than the cap.\<close>
  "bounded st = (length (processedDataHistory st) \<le> historyLimit
     \<and> length (healthHistory st) \<le> historyLimit \<and> length (anomalyLog st) \<le> historyLimit)"

text \<open>
  Accuracy as the spec words it (sections 4.1 and 4.6): a stored reading passes when every
  metric is within its absolute range and, if the record has a predecessor in the retained
  window, no metric differs from the predecessor's by more than its ceiling.
\<close>

definition within_absolute_bounds :: "reading \<Rightarrow> bool" where
  "within_absolute_bounds d =
     (\<not> (lt (temperature d) (- 50) \<or> gt (temperature d) 150)
      \<and> \<not> (lt (voltage d) 0 \<or> gt (voltage d) 10)
      \<and> \<not> (lt (current d) 0 \<or> gt (current d) 1000)
      \<and> \<not> (lt (vibration d) 0 \<or> gt (vibration d) 1)
      \<and> \<not> (lt (displacement d) 0 \<or> gt (displacement d) 10)
      \<and> \<not> (lt (tilt d) 0 \<or> gt (tilt d) 90))"

definition within_rate_ceilings :: "reading \<Rightarrow> reading \<Rightarrow> bool" where
  "within_rate_ceilings previous d =
     (\<not> delta_exceeds (temperature d) (temperature previous) 5
      \<and> \<not> delta_exceeds (voltage d) (voltage previous) (5 / 10)
      \<and> \<not> delta_exceeds (current d) (current previous) 50
      \<and> \<not> delta_exceeds (vibration d) (vibration previous) (5 / 100)
      \<and> \<not> delta_exceeds (displacement d) (displacement previous) (5 / 10)
      \<and> \<not> delta_exceeds (tilt d) (tilt previous) 2)"

fun spec_accurate_count :: "reading option \<Rightarrow> entry list \<Rightarrow> nat" where
  "spec_accurate_count previous [] = 0"
| "spec_accurate_count previous (item # items) =
     (if within_absolute_bounds (p_data item)
         \<and> (case previous of None \<Rightarrow> True | Some p \<Rightarrow> within_rate_ceilings p (p_data item))
      then 1 else 0)
     + spec_accurate_count (Some (p_data item)) items"

definition spec_accuracy_percentage :: "state \<Rightarrow> real" where
  "spec_accuracy_percentage st =
     real (spec_accurate_count None (processedDataHistory st))
       / real (length (processedDataHistory st)) * 100"

definition steady :: "real \<Rightarrow> reading" where
  \<comment> \<open>The normal reading at another temperature.\<close>
  "steady t = normal_reading\<lparr>temperature := Num t\<rparr>"

definition steady_entry :: "clock \<Rightarrow> real \<Rightarrow> entry" where
  "steady_entry c t =
     \<lparr>p_timestamp = now c, p_timeString = localeTime c, p_data = steady t,
      p_healthScore = Some 100, p_isAnomaly = False, p_anomalyReason = NoReason\<rparr>"

definition jump_temperatures :: "real list" where
  \<comment> \<open>Ten temperatures in the normal range, the second 10 above the first.\<close>
  "jump_temperatures = [20, 30, 25, 25, 25, 25, 25, 25, 25, 25]"

definition jump_state :: state where
  "jump_state = ingest_all initial_state (map (\<lambda>t. (clock0, steady t)) jump_temperatures)"

definition stored_readings :: "state \<Rightarrow> reading list" where
  \<comment> \<open>The readings of the retained processed records, oldest first.\<close>
  "stored_readings st = map p_data (processedDataHistory st)"

definition edge_temperatures :: "real list" where
  \<comment> \<open>Ten temperatures around the absolute maximum 150; only the first is beyond it, and
      it is within the rate ceiling 5 of the last.\<close>
  "edge_temperatures = [151, 150, 150, 150, 150, 150, 150, 150, 150, 150]"

definition edge_state :: state where
  "edge_state = ingest_all initial_state (map (\<lambda>t. (clock0, steady t)) edge_temperatures)"

section \<open>Basic facts\<close>

lemmas js_defs = js_lt_def js_gt_def js_le_def js_ge_def js_add_def js_sub_def js_mul_def js_div_def
  js_abs_def js_round_def js_min_def js_max_def lt_def gt_def le_def ge_def

text \<open>A history entry has no property named after a metric.\<close>

lemma entry_prop_metric:
  "entry_prop e ''temperature'' = Undefined" "entry_prop e ''voltage'' = Undefined"
  "entry_prop e ''current'' = Undefined" "entry_prop e ''vibration'' = Undefined"
  "entry_prop e ''displacement'' = Undefined" "entry_prop e ''tilt'' = Undefined"
  by (simp_all add: entry_prop_def)

lemma delta_exceeds_Undefined: "delta_exceeds a Undefined c = False"
  by (simp add: delta_exceeds_def js_sub_def js_abs_def js_gt_def split: option.splits)

lemma detectAnomaly_normal:
  "detectAnomaly normal_reading = Inr \<lparr>isAnomaly = False, reason = NoReason\<rparr>"
  by (simp add: detectAnomaly_def normal_reading_def lt_def gt_def js_lt_def js_gt_def bindE_def)

lemma calculateHealthScore_normal: "calculateHealthScore normal_reading = Some 100"
  by (simp add: calculateHealthScore_def weighted_score_def normal_reading_def
      calculateMetricScore_def calculateUpperBoundScore_def penalise_def js_defs)

lemma validateDataAccuracy_normal: "validateDataAccuracy st normal_reading"
  by (simp add: validateDataAccuracy_def normal_reading_def lt_def gt_def js_lt_def js_gt_def
      Let_def entry_prop_metric delta_exceeds_Undefined)

lemma receiveData_normal:
  "receiveData c st normal_reading = Inr
     (\<lparr>r_rawData = normal_reading, r_isComplete = True, r_isAccurate = True, r_isAnomaly = False,
       r_anomalyReason = NoReason, r_healthScore = Some 100,
       r_healthStatus = \<lparr>s_text = Excellent, s_color = Green500\<rparr>\<rparr>,
      st\<lparr>processedDataHistory := push_limit historyLimit (processedDataHistory st) (normal_entry c),
         healthHistory := push_limit historyLimit (healthHistory st)
            \<lparr>h_timestamp = now c, h_score = Some 100\<rparr>\<rparr>)"
proof -
  have comp: "validateDataCompleteness normal_reading"
    by (simp add: validateDataCompleteness_def requiredFields_def reading_prop_def normal_reading_def)
  have e: "or_now (timestamp normal_reading) (now c) = now c"
    "or_localeTime (time normal_reading) (localeTime c) = localeTime c"
    by (simp_all add: or_now_def or_localeTime_def normal_reading_def)
  show ?thesis
    by (simp add: receiveData_def detectAnomaly_normal calculateHealthScore_normal
        validateDataAccuracy_normal comp bindE_def Let_def determineHealthStatus_def js_ge_def
        recordProcessedData_def recordHealthHistory_def normal_entry_def e)
qed

lemma ingest_all_append: "ingest_all st (xs @ ys) = ingest_all (ingest_all st xs) ys"
  by (induction st xs rule: ingest_all.induct) (auto split: sum.splits)

text \<open>The state after \<open>n\<close> normal readings, up to the cap.\<close>

lemma ingest_normal:
  "n \<le> historyLimit \<Longrightarrow> ingest_all initial_state (replicate n (c, normal_reading)) =
     \<lparr>processedDataHistory = replicate n (normal_entry c), anomalyLog = [],
      healthHistory = replicate n \<lparr>h_timestamp = now c, h_score = Some 100\<rparr>, dispatched = []\<rparr>"
proof (induction n)
  case 0
  show ?case by (simp add: initial_state_def)
next
  case (Suc n)
  let ?x = "(c, normal_reading)"
  let ?S = "\<lparr>processedDataHistory = replicate n (normal_entry c), anomalyLog = [],
      healthHistory = replicate n \<lparr>h_timestamp = now c, h_score = Some 100\<rparr>, dispatched = []\<rparr>"
  have ih: "ingest_all initial_state (replicate n ?x) = ?S"
    using Suc by simp
  have "replicate (Suc n) ?x = replicate n ?x @ [?x]"
    by (simp add: replicate_append_same)
  then have "ingest_all initial_state (replicate (Suc n) ?x)
      = ingest_all (ingest_all initial_state (replicate n ?x)) [?x]"
    by (simp only: ingest_all_append)
  also have "\<dots> = ingest_all ?S [?x]"
    by (simp only: ih)
  also have "\<dots> = \<lparr>processedDataHistory = replicate (Suc n) (normal_entry c), anomalyLog = [],
      healthHistory = replicate (Suc n) \<lparr>h_timestamp = now c, h_score = Some 100\<rparr>, dispatched = []\<rparr>"
    using Suc.prems
    by (simp add: receiveData_normal push_limit_def Let_def replicate_append_same)
  finally show ?case .
qed

section \<open>The health score is an integer between 0 and 100\<close>

lemma interpolate_range:
  fixes d r :: real
  assumes "0 \<le> d" "d \<le> r" "0 < r"
  shows "0 \<le> 100 - d / r * 100 \<and> 100 - d / r * 100 \<le> 100"
proof -
  have "d / r \<le> 1" using assms by simp
  moreover have "0 \<le> d / r" using assms by simp
  ultimately show ?thesis by linarith
qed

lemma calculateMetricScore_range:
  assumes "anomalyMin < normalMin" "normalMin \<le> normalMax" "normalMax < anomalyMax"
  shows "\<exists>s. calculateMetricScore v normalMin normalMax anomalyMin anomalyMax = Some s
           \<and> 0 \<le> s \<and> s \<le> 100"
proof (cases "toNumber v")
  case None
  then show ?thesis by (simp add: calculateMetricScore_def js_defs)
next
  case (Some x)
  consider (normal) "normalMin \<le> x \<and> x \<le> normalMax"
    | (low) "anomalyMin \<le> x \<and> x < normalMin"
    | (high) "normalMax < x \<and> x \<le> anomalyMax"
    | (out) "x < anomalyMin \<or> anomalyMax < x"
    by linarith
  then show ?thesis
  proof cases
    case normal
    then show ?thesis using Some by (simp add: calculateMetricScore_def js_defs)
  next
    case low
    then have eq: "calculateMetricScore v normalMin normalMax anomalyMin anomalyMax
        = Some (100 - (normalMin - x) / (normalMin - anomalyMin) * 100)"
      using Some assms by (simp add: calculateMetricScore_def js_defs)
    show ?thesis unfolding eq
      using interpolate_range[of "normalMin - x" "normalMin - anomalyMin"] low assms by simp
  next
    case high
    then have eq: "calculateMetricScore v normalMin normalMax anomalyMin anomalyMax
        = Some (100 - (x - normalMax) / (anomalyMax - normalMax) * 100)"
      using Some assms by (simp add: calculateMetricScore_def js_defs)
    show ?thesis unfolding eq
      using interpolate_range[of "x - normalMax" "anomalyMax - normalMax"] high assms by simp
  next
    case out
    then show ?thesis using Some assms by (auto simp add: calculateMetricScore_def js_defs)
  qed
qed

lemma calculateUpperBoundScore_range:
  "\<exists>s. calculateUpperBoundScore v normalMax anomalyMax = Some s \<and> 0 \<le> s \<and> s \<le> 100"
proof (cases "toNumber v")
  case None
  then show ?thesis by (simp add: calculateUpperBoundScore_def js_defs)
next
  case (Some x)
  consider (normal) "x \<le> normalMax"
    | (high) "normalMax < x \<and> x \<le> anomalyMax"
    | (out) "normalMax < x \<and> anomalyMax < x"
    by linarith
  then show ?thesis
  proof cases
    case normal
    then show ?thesis using Some by (simp add: calculateUpperBoundScore_def js_defs)
  next
    case high
    then have eq: "calculateUpperBoundScore v normalMax anomalyMax
        = Some (100 - (x - normalMax) / (anomalyMax - normalMax) * 100)"
      using Some by (simp add: calculateUpperBoundScore_def js_defs)
    show ?thesis unfolding eq
      using interpolate_range[of "x - normalMax" "anomalyMax - normalMax"] high by simp
  next
    case out
    then show ?thesis using Some by (simp add: calculateUpperBoundScore_def js_defs)
  qed
qed

lemma penalise_Some:
  "penalise (Some s) (Some m) k = Some (s - (100 - m) * healthScoreWeights k)"
  by (simp add: penalise_def js_sub_def js_mul_def)

text \<open>The weighted composite is a number (never NaN) between 0 and 100, whatever the six
  fields hold.\<close>

lemma weighted_score_range: "\<exists>s. weighted_score d = Some s \<and> 0 \<le> s \<and> s \<le> 100"
proof -
  obtain t where t: "calculateMetricScore (temperature d) (normal_min Temperature)
      (normal_max Temperature) (anomaly_min Temperature) (anomaly_max Temperature) = Some t"
      "0 \<le> t" "t \<le> 100"
    using calculateMetricScore_range[of "anomaly_min Temperature" "normal_min Temperature"
        "normal_max Temperature" "anomaly_max Temperature" "temperature d"] by auto
  obtain v where v: "calculateMetricScore (voltage d) (normal_min Voltage)
      (normal_max Voltage) (anomaly_min Voltage) (anomaly_max Voltage) = Some v"
      "0 \<le> v" "v \<le> 100"
    using calculateMetricScore_range[of "anomaly_min Voltage" "normal_min Voltage"
        "normal_max Voltage" "anomaly_max Voltage" "voltage d"] by auto
  obtain c where c: "calculateMetricScore (current d) (normal_min Current)
      (normal_max Current) (anomaly_min Current) (anomaly_max Current) = Some c"
      "0 \<le> c" "c \<le> 100"
    using calculateMetricScore_range[of "anomaly_min Current" "normal_min Current"
        "normal_max Current" "anomaly_max Current" "current d"] by auto
  obtain b where b: "calculateUpperBoundScore (vibration d) (normal_max Vibration)
      (anomaly_max Vibration) = Some b" "0 \<le> b" "b \<le> 100"
    using calculateUpperBoundScore_range by blast
  obtain p where p: "calculateUpperBoundScore (displacement d) (normal_max Displacement)
      (anomaly_max Displacement) = Some p" "0 \<le> p" "p \<le> 100"
    using calculateUpperBoundScore_range by blast
  obtain l where l: "calculateUpperBoundScore (tilt d) (normal_max Tilt) (anomaly_max Tilt) = Some l"
      "0 \<le> l" "l \<le> 100"
    using calculateUpperBoundScore_range by blast
  have "weighted_score d = Some (t / 5 + v / 5 + c / 5 + 3 * b / 20 + 3 * p / 20 + l / 10)"
    unfolding weighted_score_def Let_def t v c b p l penalise_Some by (simp add: field_simps)
  moreover have "0 \<le> t / 5 + v / 5 + c / 5 + 3 * b / 20 + 3 * p / 20 + l / 10"
    using t(2) v(2) c(2) b(2) p(2) l(2) by simp
  moreover have "t / 5 + v / 5 + c / 5 + 3 * b / 20 + 3 * p / 20 + l / 10 \<le> 100"
    using t(3) v(3) c(3) b(3) p(3) l(3) by linarith
  ultimately show ?thesis by blast
qed

text \<open>
  C8. For every reading, whatever its six metric fields hold (a number, NaN, \<open>null\<close> or
  nothing), \<open>calculateHealthScore\<close> returns an integer \<open>n\<close> with \<open>0 \<le> n \<le> 100\<close>: the
  weighted composite \<open>s\<close> is a number, and \<open>n\<close> is \<open>s\<close> rounded to the nearest integer and
  clamped to the range 0 to 100.
\<close>

theorem calculateHealthScore_range:
  "\<exists>n::int. calculateHealthScore d = Some (of_int n) \<and> 0 \<le> n \<and> n \<le> 100
      \<and> (\<exists>s. weighted_score d = Some s \<and> n = max 0 (min 100 (round s)))"
proof -
  obtain s where s: "weighted_score d = Some s" "0 \<le> s" "s \<le> 100"
    using weighted_score_range by blast
  have "calculateHealthScore d = Some (of_int (max 0 (min 100 (round s))))"
    by (simp add: calculateHealthScore_def s js_round_def js_min_def js_max_def round_def)
  then show ?thesis using s by auto
qed

section \<open>The health report on ten or more records\<close>

lemma report_and_issues_overflow:
  assumes "10 \<le> length (processedDataHistory st)"
  shows "generateHealthReport fuel c st = Inl RangeError
       \<and> detectIssues fuel c st km = Inl RangeError"
  using assms
proof (induction fuel arbitrary: km)
  case 0
  show ?case by simp
next
  case (Suc n)
  have g: "generateHealthReport n c st = Inl RangeError"
    and d: "\<And>k. detectIssues n c st k = Inl RangeError"
    using Suc by blast+
  show ?case using Suc.prems by (simp add: g d bindE_def Let_def)
qed

text \<open>
  C1 (the code departs from the claim). With ten or more processed records
  \<open>generateHealthReport\<close> does not run to completion: it calls \<open>detectIssues\<close>, which calls
  \<open>generateHealthReport\<close> again on the same, unchanged history, and so on without a base
  case. Whatever room the call stack has, the call ends in \<open>RangeError\<close> and no report is
  returned.
\<close>

theorem generateHealthReport_overflows:
  assumes "10 \<le> length (processedDataHistory st)"
  shows "generateHealthReport fuel c st = Inl RangeError"
  using report_and_issues_overflow[OF assms] by simp

text \<open>The spec's scenario: ten normal readings, then the report.\<close>

theorem generateHealthReport_overflows_witness:
  "10 \<le> length (processedDataHistory
             (ingest_all initial_state (replicate 10 (clock0, normal_reading))))
   \<and> generateHealthReport 100000 clock0
        (ingest_all initial_state (replicate 10 (clock0, normal_reading))) = Inl RangeError"
  using generateHealthReport_overflows
    [of "ingest_all initial_state (replicate 10 (clock0, normal_reading))" 100000 clock0]
  by (simp add: ingest_normal historyLimit_def)

section \<open>Rate-of-change validation\<close>

text \<open>
  The rate-of-change part of \<open>validateDataAccuracy\<close> reads \<open>lastData.temperature\<close> and its
  five siblings on a history entry, which keeps the reading under \<open>data\<close>: each read is
  \<open>undefined\<close>, each difference NaN, and no comparison with NaN holds. The function
  therefore gives the same answer on every history.
\<close>

lemma validateDataAccuracy_ignores_history:
  "validateDataAccuracy st d = validateDataAccuracy initial_state d"
  by (simp add: validateDataAccuracy_def Let_def entry_prop_metric delta_exceeds_Undefined
      initial_state_def)

text \<open>
  C2 (the code departs from the claim). Two consecutive readings, temperature 20 then 30,
  all values within the absolute bounds: the jump of 10 exceeds the ceiling 5, and the
  claim wants \<open>isAccurate = false\<close> for the second. The code returns \<open>isAccurate = true\<close>.
\<close>

theorem rate_of_change_unchecked:
  "\<exists>r1 st1 r2 st2.
     receiveData clock0 initial_state (normal_reading\<lparr>temperature := Num 20\<rparr>) = Inr (r1, st1)
     \<and> map p_data (processedDataHistory st1) = [normal_reading\<lparr>temperature := Num 20\<rparr>]
     \<and> receiveData clock0 st1 (normal_reading\<lparr>temperature := Num 30\<rparr>) = Inr (r2, st2)
     \<and> r_isAccurate r2"
proof -
  have d: "\<And>t. 20 \<le> t \<Longrightarrow> t \<le> 30 \<Longrightarrow>
      detectAnomaly (normal_reading\<lparr>temperature := Num t\<rparr>) = Inr \<lparr>isAnomaly = False, reason = NoReason\<rparr>"
    by (simp add: detectAnomaly_def normal_reading_def lt_def gt_def js_lt_def js_gt_def bindE_def)
  have v: "\<And>st. validateDataAccuracy st (normal_reading\<lparr>temperature := Num 30\<rparr>)"
    by (simp add: validateDataAccuracy_def normal_reading_def lt_def gt_def js_lt_def js_gt_def
        Let_def entry_prop_metric delta_exceeds_Undefined)
  show ?thesis
    by (simp add: receiveData_def d v bindE_def Let_def recordProcessedData_def
        recordHealthHistory_def push_limit_def initial_state_def historyLimit_def)
qed

section \<open>Anomaly detection: the last match wins\<close>

lemma two_sided_step:
  assumes "v \<noteq> Null"
  shows "(if lt v lo then flag low v k lo else if gt v hi then flag high v k hi else Inr r)
       = Inr (case two_sided_violation v k lo hi low high of None \<Rightarrow> r
              | Some t \<Rightarrow> \<lparr>isAnomaly = True, reason = t\<rparr>)"
  using assms
  by (cases v) (simp_all add: two_sided_violation_def flag_def bindE_def lt_def gt_def js_lt_def
      js_gt_def number_toFixed_def)

lemma one_sided_step:
  assumes "0 \<le> hi"
  shows "(if gt v hi then flag high v k hi else Inr r)
       = Inr (case one_sided_violation v k hi high of None \<Rightarrow> r
              | Some t \<Rightarrow> \<lparr>isAnomaly = True, reason = t\<rparr>)"
  using assms
  by (cases v) (simp_all add: one_sided_violation_def flag_def bindE_def gt_def
      js_gt_def number_toFixed_def)

text \<open>When it returns, \<open>detectAnomaly\<close> has run all six blocks, one after the other.\<close>

lemma detectAnomaly_fold:
  assumes "temperature d \<noteq> Null" "voltage d \<noteq> Null" "current d \<noteq> Null"
  shows "detectAnomaly d
       = Inr (foldl (mark d) \<lparr>isAnomaly = False, reason = NoReason\<rparr> evaluation_order)"
proof -
  have v: "0 \<le> anomaly_max Vibration" "0 \<le> anomaly_max Displacement" "0 \<le> anomaly_max Tilt"
    by simp_all
  show ?thesis
    unfolding detectAnomaly_def two_sided_step[OF assms(1)] two_sided_step[OF assms(2)]
      two_sided_step[OF assms(3)] one_sided_step[OF v(1)] one_sided_step[OF v(2)]
      one_sided_step[OF v(3)]
    by (simp add: bindE_def evaluation_order_def mark_def)
qed

lemma map_filter_snoc:
  "List.map_filter f (ms @ [m]) = List.map_filter f ms @ (case f m of None \<Rightarrow> [] | Some t \<Rightarrow> [t])"
  by (simp add: map_filter_def split: option.splits)

lemma foldl_mark_last:
  "foldl (mark d) r ms =
     (if List.map_filter (out_of_bounds d) ms = [] then r
      else \<lparr>isAnomaly = True, reason = last (List.map_filter (out_of_bounds d) ms)\<rparr>)"
proof (induction ms rule: rev_induct)
  case Nil
  show ?case by (simp add: map_filter_simps)
next
  case (snoc m ms)
  have step: "foldl (mark d) r (ms @ [m]) =
      (case out_of_bounds d m of None \<Rightarrow> foldl (mark d) r ms
       | Some t \<Rightarrow> \<lparr>isAnomaly = True, reason = t\<rparr>)"
    by (simp add: mark_def)
  show ?case
    unfolding step snoc map_filter_snoc
    by (cases "out_of_bounds d m") simp_all
qed

lemma violations_two_anomalies:
  "violations two_anomalies
     = [Reason TemperatureHigh (Some 40) 35, Reason TiltHigh (Some 10) (45 / 10)]"
  by (simp add: violations_def evaluation_order_def map_filter_simps two_anomalies_def
      normal_reading_def two_sided_violation_def one_sided_violation_def lt_def gt_def js_lt_def
      js_gt_def number_toFixed_def round_to_def)

text \<open>
  C3 as stated fails. With temperature 40 and tilt 10 two metrics are out of bounds, and the
  reason returned is not the one of the first of them (temperature) but the tilt's.
\<close>

theorem detectAnomaly_first_match_counterexample:
  "2 \<le> length (violations two_anomalies)
   \<and> (\<exists>r. detectAnomaly two_anomalies = Inr r \<and> reason r \<noteq> hd (violations two_anomalies))"
proof -
  have "detectAnomaly two_anomalies
      = Inr \<lparr>isAnomaly = True, reason = Reason TiltHigh (Some 10) (45 / 10)\<rparr>"
    by (simp add: detectAnomaly_def two_anomalies_def normal_reading_def lt_def gt_def js_lt_def
        js_gt_def flag_def bindE_def round_to_def)
  then show ?thesis by (simp add: violations_two_anomalies)
qed

text \<open>
  C3, amended. For every reading whose temperature, voltage and current are not \<open>null\<close>
  and in which at least one metric (so also: two or more) exceeds its anomaly threshold,
  \<open>detectAnomaly\<close> reports \<open>isAnomaly = true\<close> with exactly one reason, namely the reason
  of the last out-of-bounds metric in the fixed evaluation order temperature, voltage,
  current, vibration, displacement, tilt: every metric is evaluated, and a later match
  overwrites an earlier one.
\<close>

theorem detectAnomaly_last_match:
  assumes "temperature d \<noteq> Null" "voltage d \<noteq> Null" "current d \<noteq> Null"
    and "violations d \<noteq> []"
  shows "detectAnomaly d = Inr \<lparr>isAnomaly = True, reason = last (violations d)\<rparr>"
  using assms(4) unfolding detectAnomaly_fold[OF assms(1,2,3)] foldl_mark_last violations_def
  by simp

theorem detectAnomaly_last_match_witness:
  "temperature two_anomalies \<noteq> Null \<and> voltage two_anomalies \<noteq> Null
   \<and> current two_anomalies \<noteq> Null
   \<and> violations two_anomalies
       = [Reason TemperatureHigh (Some 40) 35, Reason TiltHigh (Some 10) (45 / 10)]
   \<and> detectAnomaly two_anomalies
       = Inr \<lparr>isAnomaly = True, reason = Reason TiltHigh (Some 10) (45 / 10)\<rparr>"
proof -
  have n: "temperature two_anomalies \<noteq> Null" "voltage two_anomalies \<noteq> Null"
    "current two_anomalies \<noteq> Null"
    by (simp_all add: two_anomalies_def normal_reading_def)
  have v: "violations two_anomalies \<noteq> []"
    by (simp add: violations_two_anomalies)
  show ?thesis
    using detectAnomaly_last_match[OF n v] n by (simp add: violations_two_anomalies)
qed

section \<open>A null metric\<close>

text \<open>
  A reading whose temperature, voltage and current are not \<open>null\<close> (missing fields
  included) is processed to the end, and reported incomplete exactly when a field is
  missing or \<open>null\<close>.
\<close>

lemma receiveData_returns_without_null:
  assumes "temperature d \<noteq> Null" "voltage d \<noteq> Null" "current d \<noteq> Null"
  shows "\<exists>res st'. receiveData c st d = Inr (res, st')
           \<and> r_isComplete res = validateDataCompleteness d"
  by (simp add: receiveData_def detectAnomaly_fold[OF assms] bindE_def Let_def)

text \<open>
  C4 (the code departs from the claim). A reading whose temperature is \<open>null\<close>, the other
  fields normal: \<open>null < 15\<close> holds (\<open>null\<close> converts to 0), the branch builds its reason
  text with \<open>data.temperature.toFixed(1)\<close>, and the method call on \<open>null\<close> raises
  TypeError. \<open>receiveData\<close> raises, on every history and clock, instead of returning a
  result with \<open>isComplete = false\<close>.
\<close>

theorem receiveData_null_raises:
  "receiveData c st (normal_reading\<lparr>temperature := Null\<rparr>) = Inl TypeError"
  by (simp add: receiveData_def detectAnomaly_def normal_reading_def lt_def js_lt_def flag_def
      bindE_def Let_def)

section \<open>Scores at the anomaly boundary\<close>

text \<open>The two-sided metrics score 0 at either anomaly bound.\<close>

lemma two_sided_score_at_anomaly_bound:
  "calculateMetricScore (Num (anomaly_min m)) (normal_min m) (normal_max m) (anomaly_min m) (anomaly_max m) = Some 0
   \<and> calculateMetricScore (Num (anomaly_max m)) (normal_min m) (normal_max m) (anomaly_min m) (anomaly_max m) = Some 0"
  if "m = Temperature \<or> m = Voltage \<or> m = Current"
  using that by (auto simp add: calculateMetricScore_def js_defs)

text \<open>
  C6 (the code departs from the claim). For vibration, displacement and tilt the configured
  normal maximum (0.1, 1.0, 5.0) lies above the anomaly maximum (0.09, 0.9, 4.5), so a value
  exactly at the anomaly bound is still within the normal range: its per-metric score is
  100, not 0, and a reading that is normal but for vibration 0.09 has health score 100.
  The anomaly flag is strict, as the claim says: not raised at 0.09, raised at 0.095, where
  the score is still 100.
\<close>

theorem one_sided_score_at_anomaly_bound:
  "calculateUpperBoundScore (Num (anomaly_max Vibration)) (normal_max Vibration)
      (anomaly_max Vibration) = Some 100
   \<and> calculateUpperBoundScore (Num (anomaly_max Displacement)) (normal_max Displacement)
      (anomaly_max Displacement) = Some 100
   \<and> calculateUpperBoundScore (Num (anomaly_max Tilt)) (normal_max Tilt) (anomaly_max Tilt)
      = Some 100
   \<and> calculateHealthScore (normal_reading\<lparr>vibration := Num (anomaly_max Vibration)\<rparr>) = Some 100
   \<and> detectAnomaly (normal_reading\<lparr>vibration := Num (anomaly_max Vibration)\<rparr>)
       = Inr \<lparr>isAnomaly = False, reason = NoReason\<rparr>
   \<and> detectAnomaly (normal_reading\<lparr>vibration := Num (95 / 1000)\<rparr>)
       = Inr \<lparr>isAnomaly = True, reason = Reason VibrationHigh (Some (95 / 1000)) (anomaly_max Vibration)\<rparr>
   \<and> calculateUpperBoundScore (Num (95 / 1000)) (normal_max Vibration) (anomaly_max Vibration)
       = Some 100"
  by (simp add: calculateUpperBoundScore_def calculateHealthScore_def weighted_score_def
      normal_reading_def calculateMetricScore_def penalise_def js_defs detectAnomaly_def
      flag_def bindE_def round_to_def)

section \<open>A reading with no metric at all\<close>

lemma push_limit_last: "0 < limit \<Longrightarrow> last (push_limit limit xs x) = x"
  by (cases xs) (simp_all add: push_limit_def Let_def)

text \<open>
  C10. For a reading in which all six metric fields are absent (whatever its timestamp
  and time), on every history and clock, \<open>receiveData\<close> returns a result with
  \<open>healthScore = 0\<close>, \<open>isAnomaly = false\<close>, an empty reason and \<open>isComplete = false\<close>, and
  the record it stores carries the score 0. Either piecewise score of a missing value is 0,
  whatever the bounds.
\<close>

theorem receiveData_all_missing:
  "\<exists>res st'.
     receiveData c st \<lparr>timestamp = ts, time = tm, temperature = Undefined, voltage = Undefined,
        current = Undefined, vibration = Undefined, displacement = Undefined, tilt = Undefined\<rparr>
       = Inr (res, st')
     \<and> r_healthScore res = Some 0 \<and> r_isAnomaly res = False \<and> r_anomalyReason res = NoReason
     \<and> r_isComplete res = False
     \<and> p_healthScore (last (processedDataHistory st')) = Some 0
     \<and> calculateMetricScore Undefined normalMin normalMax anomalyMin anomalyMax = Some 0
     \<and> calculateUpperBoundScore Undefined normalMax anomalyMax = Some 0"
proof -
  let ?d = "\<lparr>timestamp = ts, time = tm, temperature = Undefined, voltage = Undefined,
        current = Undefined, vibration = Undefined, displacement = Undefined, tilt = Undefined\<rparr>"
  have a: "detectAnomaly ?d = Inr \<lparr>isAnomaly = False, reason = NoReason\<rparr>"
    by (simp add: detectAnomaly_def lt_def gt_def js_lt_def js_gt_def bindE_def)
  have h: "calculateHealthScore ?d = Some 0"
    by (simp add: calculateHealthScore_def weighted_score_def calculateMetricScore_def
        calculateUpperBoundScore_def penalise_def js_defs)
  have k: "validateDataCompleteness ?d = False"
    by (simp add: validateDataCompleteness_def requiredFields_def reading_prop_def)
  have m: "calculateMetricScore Undefined normalMin normalMax anomalyMin anomalyMax = Some 0"
    "calculateUpperBoundScore Undefined normalMax anomalyMax = Some 0"
    by (simp_all add: calculateMetricScore_def calculateUpperBoundScore_def js_defs)
  show ?thesis
    by (simp add: receiveData_def a h k m bindE_def Let_def recordProcessedData_def
        recordHealthHistory_def push_limit_last historyLimit_def)
qed

section \<open>The three logs are bounded queues\<close>

lemma push_limit_length: "length xs \<le> limit \<Longrightarrow> length (push_limit limit xs x) \<le> limit"
  by (simp add: push_limit_def Let_def)

lemma push_limit_fifo:
  "length xs \<le> limit \<Longrightarrow> 0 < limit \<Longrightarrow>
   push_limit limit xs x = (if length xs = limit then tl xs else xs) @ [x]"
  by (cases xs) (auto simp add: push_limit_def Let_def)

text \<open>What a call of \<open>receiveData\<close> that returns has written.\<close>

lemma receiveData_returns:
  assumes "receiveData c st d = Inr (res, st')"
  shows "detectAnomaly d = Inr \<lparr>isAnomaly = r_isAnomaly res, reason = r_anomalyReason res\<rparr>"
    and "r_healthScore res = calculateHealthScore d"
    and "processedDataHistory st' = push_limit historyLimit (processedDataHistory st)
          \<lparr>p_timestamp = or_now (timestamp d) (now c),
           p_timeString = or_localeTime (time d) (localeTime c),
           p_data = d, p_healthScore = r_healthScore res,
           p_isAnomaly = r_isAnomaly res, p_anomalyReason = r_anomalyReason res\<rparr>"
    and "healthHistory st' = push_limit historyLimit (healthHistory st)
          \<lparr>h_timestamp = now c, h_score = r_healthScore res\<rparr>"
    and "anomalyLog st' = (if r_isAnomaly res
           then push_limit 1000 (anomalyLog st) (anomaly_record c d (r_anomalyReason res))
           else anomalyLog st)"
proof -
  obtain a :: anomalyResult where a: "detectAnomaly d = Inr a"
    using assms by (cases "detectAnomaly d") (simp_all add: receiveData_def bindE_def Let_def)
  show "detectAnomaly d = Inr \<lparr>isAnomaly = r_isAnomaly res, reason = r_anomalyReason res\<rparr>"
    and "r_healthScore res = calculateHealthScore d"
    and "processedDataHistory st' = push_limit historyLimit (processedDataHistory st)
          \<lparr>p_timestamp = or_now (timestamp d) (now c),
           p_timeString = or_localeTime (time d) (localeTime c),
           p_data = d, p_healthScore = r_healthScore res,
           p_isAnomaly = r_isAnomaly res, p_anomalyReason = r_anomalyReason res\<rparr>"
    and "healthHistory st' = push_limit historyLimit (healthHistory st)
          \<lparr>h_timestamp = now c, h_score = r_healthScore res\<rparr>"
    and "anomalyLog st' = (if r_isAnomaly res
           then push_limit 1000 (anomalyLog st) (anomaly_record c d (r_anomalyReason res))
           else anomalyLog st)"
    using assms a
    by (auto simp add: receiveData_def bindE_def Let_def recordProcessedData_def
        recordHealthHistory_def logAnomaly_def triggerAnomalyEvent_def)
qed

lemma receiveData_bounded:
  assumes "receiveData c st d = Inr (res, st')" "bounded st"
  shows "bounded st'"
proof -
  note a = receiveData_returns[OF assms(1)]
  have "length (anomalyLog st) \<le> 1000"
    using assms(2) by (simp add: bounded_def historyLimit_def)
  then have "length (anomalyLog st') \<le> historyLimit"
    unfolding a(5) using push_limit_length[of "anomalyLog st" 1000] by (simp add: historyLimit_def)
  then show ?thesis
    using assms(2) unfolding bounded_def a(3) a(4) by (simp add: push_limit_length)
qed

lemma ingest_all_bounded: "bounded st \<Longrightarrow> bounded (ingest_all st rs)"
proof (induction st rs rule: ingest_all.induct)
  case (1 st)
  then show ?case by simp
next
  case (2 st c d rest)
  show ?case
  proof (cases "receiveData c st d")
    case (Inl e)
    then show ?thesis using 2 by simp
  next
    case (Inr p)
    obtain res st' where p: "p = (res, st')" by (cases p)
    have "bounded st'" using receiveData_bounded Inr p 2(3) by blast
    then show ?thesis using 2(2)[OF Inr p[symmetric]] Inr p by simp
  qed
qed

text \<open>
  C7. After every sequence of ingested readings (from the empty module state; a call that
  raises stores nothing), each of the three logs holds at most \<open>historyLimit\<close> entries.
  One more reading appends its entry at the end of the processed log and of the health
  log, and of the anomaly log when the reading is anomalous; a log that was full loses
  exactly its oldest entry, the others keep their order.
\<close>

theorem history_logs_bounded_fifo:
  fixes rs
  defines "st \<equiv> ingest_all initial_state rs"
  shows "length (processedDataHistory st) \<le> historyLimit
     \<and> length (healthHistory st) \<le> historyLimit
     \<and> length (anomalyLog st) \<le> historyLimit
     \<and> (\<forall>c d res st'. receiveData c st d = Inr (res, st') \<longrightarrow>
          processedDataHistory st' =
            (if length (processedDataHistory st) = historyLimit then tl (processedDataHistory st)
             else processedDataHistory st)
            @ [\<lparr>p_timestamp = or_now (timestamp d) (now c),
                p_timeString = or_localeTime (time d) (localeTime c),
                p_data = d, p_healthScore = r_healthScore res,
                p_isAnomaly = r_isAnomaly res, p_anomalyReason = r_anomalyReason res\<rparr>]
        \<and> healthHistory st' =
            (if length (healthHistory st) = historyLimit then tl (healthHistory st)
             else healthHistory st)
            @ [\<lparr>h_timestamp = now c, h_score = r_healthScore res\<rparr>]
        \<and> anomalyLog st' =
            (if r_isAnomaly res
             then (if length (anomalyLog st) = historyLimit then tl (anomalyLog st)
                   else anomalyLog st) @ [anomaly_record c d (r_anomalyReason res)]
             else anomalyLog st))"
proof -
  have b: "bounded st"
    unfolding st_def by (rule ingest_all_bounded) (simp add: bounded_def initial_state_def)
  have step: "processedDataHistory st' =
            (if length (processedDataHistory st) = historyLimit then tl (processedDataHistory st)
             else processedDataHistory st)
            @ [\<lparr>p_timestamp = or_now (timestamp d) (now c),
                p_timeString = or_localeTime (time d) (localeTime c),
                p_data = d, p_healthScore = r_healthScore res,
                p_isAnomaly = r_isAnomaly res, p_anomalyReason = r_anomalyReason res\<rparr>]
        \<and> healthHistory st' =
            (if length (healthHistory st) = historyLimit then tl (healthHistory st)
             else healthHistory st)
            @ [\<lparr>h_timestamp = now c, h_score = r_healthScore res\<rparr>]
        \<and> anomalyLog st' =
            (if r_isAnomaly res
             then (if length (anomalyLog st) = historyLimit then tl (anomalyLog st)
                   else anomalyLog st) @ [anomaly_record c d (r_anomalyReason res)]
             else anomalyLog st)"
    if r: "receiveData c st d = Inr (res, st')" for c d res st'
  proof -
    have l: "length (anomalyLog st) \<le> 1000" "(0::nat) < 1000" "0 < historyLimit"
      "length (processedDataHistory st) \<le> historyLimit"
      "length (healthHistory st) \<le> historyLimit"
      using b by (simp_all add: bounded_def historyLimit_def)
    note a = receiveData_returns(3,4,5)[OF r]
    show ?thesis
      unfolding a push_limit_fifo[OF l(4) l(3)] push_limit_fifo[OF l(5) l(3)]
        push_limit_fifo[OF l(1) l(2)]
      by (simp add: historyLimit_def)
  qed
  show ?thesis using b step unfolding bounded_def by blast
qed

text \<open>The 1001st normal reading: the processed log stays at 1000 entries and has lost its
  first.\<close>

theorem history_logs_bounded_fifo_witness:
  "length (processedDataHistory
      (ingest_all initial_state (replicate 1000 (clock0, normal_reading)))) = historyLimit
   \<and> (\<exists>res st'.
        receiveData clock0 (ingest_all initial_state (replicate 1000 (clock0, normal_reading)))
          normal_reading = Inr (res, st')
        \<and> processedDataHistory st' =
            tl (processedDataHistory
                 (ingest_all initial_state (replicate 1000 (clock0, normal_reading))))
            @ [normal_entry clock0]
        \<and> length (processedDataHistory st') = historyLimit)"
proof -
  let ?rs = "replicate 1000 (clock0, normal_reading)"
  let ?S = "ingest_all initial_state ?rs"
  have S: "processedDataHistory ?S = replicate 1000 (normal_entry clock0)"
    by (simp add: ingest_normal historyLimit_def)
  obtain res st' where r: "receiveData clock0 ?S normal_reading = Inr (res, st')"
    and res: "r_healthScore res = Some 100" "r_isAnomaly res = False"
      "r_anomalyReason res = NoReason"
    by (simp add: receiveData_normal)
  have "processedDataHistory st' =
      (if length (processedDataHistory ?S) = historyLimit then tl (processedDataHistory ?S)
       else processedDataHistory ?S)
      @ [\<lparr>p_timestamp = or_now (timestamp normal_reading) (now clock0),
          p_timeString = or_localeTime (time normal_reading) (localeTime clock0),
          p_data = normal_reading, p_healthScore = r_healthScore res,
          p_isAnomaly = r_isAnomaly res, p_anomalyReason = r_anomalyReason res\<rparr>]"
    using history_logs_bounded_fifo[of ?rs] r by blast
  moreover have "\<lparr>p_timestamp = or_now (timestamp normal_reading) (now clock0),
          p_timeString = or_localeTime (time normal_reading) (localeTime clock0),
          p_data = normal_reading, p_healthScore = r_healthScore res,
          p_isAnomaly = r_isAnomaly res, p_anomalyReason = r_anomalyReason res\<rparr>
        = normal_entry clock0"
    by (simp add: res normal_entry_def or_now_def or_localeTime_def normal_reading_def)
  ultimately have "processedDataHistory st' = tl (processedDataHistory ?S) @ [normal_entry clock0]"
    by (simp only: S historyLimit_def length_replicate refl if_True)
  then show ?thesis using r by (simp add: S historyLimit_def)
qed

section \<open>Reports on fewer than ten records\<close>

text \<open>
  C9. Whenever fewer than 10 processed records are retained, \<open>generateHealthReport\<close> (given
  room for its one call frame) and \<open>generateDataQualityReport\<close> each return the
  insufficient-data report: scores zeroed, the insufficient-data status or level, no
  metrics, and one issue and one recommendation saying so. Neither raises.
\<close>

theorem insufficient_reports:
  assumes "length (processedDataHistory st) < 10"
  shows "generateHealthReport (Suc fuel) c st = Inr
      \<lparr>hr_timeString = localeString c,
       hr_duration = DurationInsufficient,
       hr_healthScore = \<lparr>hs_current = Some 0, hs_average = Some 0, hs_trend = Some 0,
                        hs_status = \<lparr>s_text = InsufficientData, s_color = Gray500\<rparr>\<rparr>,
       hr_anomalyStats = \<lparr>as_count = 0, as_rate = Some 0\<rparr>,
       hr_keyMetrics = None,
       hr_issues = [NotEnoughData],
       hr_recommendations = [CollectMoreData]\<rparr>
    \<and> generateDataQualityReport st =
      \<lparr>dataQualityScore = Some 0,
       dq_qualityLevel = \<lparr>ql_name = QualityInsufficient, ql_color = Gray500\<rparr>,
       dq_metrics = None,
       dq_recommendations = [QualityNotEnoughData]\<rparr>"
  using assms
  by (simp add: insufficientHealthReport_def generateDataQualityReport_def
      insufficientQualityReport_def)

text \<open>The spec's scenario: nine normal readings, then both reports.\<close>

theorem insufficient_reports_witness:
  "length (processedDataHistory
      (ingest_all initial_state (replicate 9 (clock0, normal_reading)))) < 10
   \<and> generateHealthReport 1 clock0
        (ingest_all initial_state (replicate 9 (clock0, normal_reading)))
       = Inr (insufficientHealthReport clock0)
   \<and> generateDataQualityReport
        (ingest_all initial_state (replicate 9 (clock0, normal_reading)))
       = insufficientQualityReport"
proof -
  let ?S = "ingest_all initial_state (replicate 9 (clock0, normal_reading))"
  have l: "length (processedDataHistory ?S) < 10"
    by (simp add: ingest_normal historyLimit_def)
  show ?thesis
    using insufficient_reports[OF l, of 0 clock0] l
    by (simp add: insufficientHealthReport_def insufficientQualityReport_def)
qed

section \<open>The accuracy sub-score\<close>

lemma validateDataAccuracy_steady:
  assumes "20 \<le> t" "t \<le> 30"
  shows "validateDataAccuracy st (steady t)"
  using assms
  by (simp add: validateDataAccuracy_def normal_reading_def steady_def lt_def gt_def js_lt_def
      js_gt_def Let_def entry_prop_metric delta_exceeds_Undefined)

lemma receiveData_steady:
  assumes "20 \<le> t" "t \<le> 30"
  shows "receiveData c st (steady t) = Inr
     (\<lparr>r_rawData = steady t, r_isComplete = True, r_isAccurate = True, r_isAnomaly = False,
       r_anomalyReason = NoReason, r_healthScore = Some 100,
       r_healthStatus = \<lparr>s_text = Excellent, s_color = Green500\<rparr>\<rparr>,
      st\<lparr>processedDataHistory := push_limit historyLimit (processedDataHistory st) (steady_entry c t),
         healthHistory := push_limit historyLimit (healthHistory st)
            \<lparr>h_timestamp = now c, h_score = Some 100\<rparr>\<rparr>)"
proof -
  have comp: "validateDataCompleteness (steady t)"
    by (simp add: validateDataCompleteness_def requiredFields_def reading_prop_def
        normal_reading_def steady_def)
  have e: "or_now (timestamp (steady t)) (now c) = now c"
    "or_localeTime (time (steady t)) (localeTime c) = localeTime c"
    by (simp_all add: or_now_def or_localeTime_def normal_reading_def steady_def)
  have a: "detectAnomaly (steady t) = Inr \<lparr>isAnomaly = False, reason = NoReason\<rparr>"
    using assms
    by (simp add: detectAnomaly_def normal_reading_def steady_def lt_def gt_def js_lt_def
        js_gt_def bindE_def)
  have h: "calculateHealthScore (steady t) = Some 100"
    using assms
    by (simp add: calculateHealthScore_def weighted_score_def normal_reading_def steady_def
        calculateMetricScore_def calculateUpperBoundScore_def penalise_def js_defs)
  note v = validateDataAccuracy_steady[OF assms]
  show ?thesis
    by (simp add: receiveData_def a h v comp bindE_def Let_def determineHealthStatus_def js_ge_def
        recordProcessedData_def recordHealthHistory_def steady_entry_def e)
qed

lemma ingest_steady:
  "length ts \<le> historyLimit \<Longrightarrow> list_all (\<lambda>t. 20 \<le> t \<and> t \<le> 30) ts \<Longrightarrow>
   ingest_all initial_state (map (\<lambda>t. (c, steady t)) ts) =
     \<lparr>processedDataHistory = map (steady_entry c) ts, anomalyLog = [],
      healthHistory = map (\<lambda>t. \<lparr>h_timestamp = now c, h_score = Some 100\<rparr>) ts, dispatched = []\<rparr>"
proof (induction ts rule: rev_induct)
  case Nil
  show ?case by (simp add: initial_state_def)
next
  case (snoc t ts)
  have ih: "ingest_all initial_state (map (\<lambda>t. (c, steady t)) ts) =
     \<lparr>processedDataHistory = map (steady_entry c) ts, anomalyLog = [],
      healthHistory = map (\<lambda>t. \<lparr>h_timestamp = now c, h_score = Some 100\<rparr>) ts, dispatched = []\<rparr>"
    using snoc by simp
  have t: "20 \<le> t" "t \<le> 30" "length ts < historyLimit"
    using snoc.prems by simp_all
  show ?case
    using t(3)
    by (simp add: ingest_all_append ih receiveData_steady[OF t(1,2)] push_limit_def Let_def)
qed

text \<open>The state after the ten readings of \<open>jump_temperatures\<close>.\<close>

lemma jump_history:
  "jump_state =
     \<lparr>processedDataHistory = map (steady_entry clock0) jump_temperatures, anomalyLog = [],
      healthHistory = map (\<lambda>t. \<lparr>h_timestamp = now clock0, h_score = Some 100\<rparr>) jump_temperatures,
      dispatched = []\<rparr>"
  unfolding jump_state_def
  by (rule ingest_steady) (simp_all add: jump_temperatures_def historyLimit_def)

lemma jump_all_pass:
  "filter (\<lambda>item. validateDataAccuracy jump_state (p_data item)) (processedDataHistory jump_state)
     = processedDataHistory jump_state"
  by (simp add: jump_history jump_temperatures_def steady_entry_def validateDataAccuracy_steady)

lemma count_accurate_filter:
  "count_accurate st items n
     = n + length (filter (\<lambda>item. validateDataAccuracy st (p_data item)) items)"
  by (induction items arbitrary: n) simp_all

lemma round_to_percent:
  assumes "0 \<le> p" "p \<le> 100"
  shows "0 \<le> round_to 1 p \<and> round_to 1 p \<le> 100"
proof -
  have "\<lfloor>p * 10 + 1 / 2\<rfloor> \<le> 1000" using assms by linarith
  moreover have "0 \<le> \<lfloor>p * 10 + 1 / 2\<rfloor>" using assms by simp
  ultimately have "0 \<le> of_int \<lfloor>p * 10 + 1 / 2\<rfloor> / (10::real)
      \<and> of_int \<lfloor>p * 10 + 1 / 2\<rfloor> / (10::real) \<le> 100"
    by simp
  then show ?thesis using assms by (cases "p = 0") (simp_all add: round_to_def sgn_if)
qed

lemma percentage_score_eq:
  assumes "k \<le> n" "0 < n"
  shows "percentage_score k n =
     \<lparr>q_value = Some (round_to 1 (real k / real n * 100)),
      q_score = Some (of_int (round (round_to 1 (real k / real n * 100))))\<rparr>"
proof -
  let ?p = "real k / real n * 100"
  have p: "0 \<le> ?p" "?p \<le> 100" using assms by (simp_all add: field_simps)
  have r: "0 \<le> round_to 1 ?p" "round_to 1 ?p \<le> 100"
    using round_to_percent[OF p] by simp_all
  have "0 \<le> round (round_to 1 ?p)" "round (round_to 1 ?p) \<le> 100"
    using r by (simp_all add: round_def)
  then show ?thesis
    using assms by (simp add: percentage_score_def Let_def js_defs number_toFixed_def round_def)
qed

text \<open>
  C5 as stated fails. Ten retained records, all within the absolute bounds, the second 10
  degrees above the first: against its own predecessor the second record fails the
  rate-of-change check, so the share the claim describes is 90, and the report's accuracy
  sub-score is 100.
\<close>

theorem accuracy_own_predecessor_counterexample:
  "length (processedDataHistory jump_state) = 10
   \<and> spec_accuracy_percentage jump_state = 90
   \<and> (\<exists>m. dq_metrics (generateDataQualityReport jump_state) = Some m
          \<and> q_score (accuracy m) = Some 100
          \<and> q_score (accuracy m) \<noteq> Some (spec_accuracy_percentage jump_state))"
proof -
  have len: "length (processedDataHistory jump_state) = 10"
    by (simp add: jump_history jump_temperatures_def)
  have acc: "q_score (calculateDataAccuracy jump_state) = Some 100"
    using len
    by (simp add: calculateDataAccuracy_def count_accurate_filter jump_all_pass
        percentage_score_def Let_def js_defs number_toFixed_def round_to_def)
  have spec: "spec_accuracy_percentage jump_state = 90"
    by (simp add: spec_accuracy_percentage_def jump_history jump_temperatures_def steady_entry_def
        steady_def normal_reading_def within_absolute_bounds_def within_rate_ceilings_def
        delta_exceeds_def lt_def gt_def js_lt_def js_gt_def js_sub_def js_abs_def)
  show ?thesis
    using len acc spec by (simp add: generateDataQualityReport_def Let_def)
qed

text \<open>
  The accuracy check never rejects a reading for its rate of change (see C2), so on every
  history it answers as the absolute-bound check alone.
\<close>

lemma validateDataAccuracy_bounds_only:
  "validateDataAccuracy st d = within_absolute_bounds d"
  by (simp add: validateDataAccuracy_def within_absolute_bounds_def Let_def entry_prop_metric
      delta_exceeds_Undefined)

text \<open>Below the cap, the stored readings are the ingested ones, in order.\<close>

lemma ingest_all_data:
  assumes "list_all (\<lambda>r. temperature (snd r) \<noteq> Null \<and> voltage (snd r) \<noteq> Null
             \<and> current (snd r) \<noteq> Null) rs"
    and "length (processedDataHistory st) + length rs \<le> historyLimit"
  shows "stored_readings (ingest_all st rs) = stored_readings st @ map snd rs"
  using assms
proof (induction st rs rule: ingest_all.induct)
  case (1 st)
  show ?case by simp
next
  case (2 st c d rest)
  have n: "temperature d \<noteq> Null" "voltage d \<noteq> Null" "current d \<noteq> Null"
    using 2(3) by simp_all
  obtain res st' where r: "receiveData c st d = Inr (res, st')"
    using receiveData_returns_without_null[OF n] by blast
  have lt: "length (processedDataHistory st) < historyLimit"
    using 2(4) by simp
  have h: "processedDataHistory st' = processedDataHistory st @
      [\<lparr>p_timestamp = or_now (timestamp d) (now c),
        p_timeString = or_localeTime (time d) (localeTime c),
        p_data = d, p_healthScore = r_healthScore res,
        p_isAnomaly = r_isAnomaly res, p_anomalyReason = r_anomalyReason res\<rparr>]"
    using receiveData_returns(3)[OF r] lt by (simp add: push_limit_def Let_def)
  have "stored_readings (ingest_all st' rest) = stored_readings st' @ map snd rest"
    using 2(2)[OF r refl] 2(3) 2(4) h by simp
  then show ?case
    by (simp add: r h stored_readings_def)
qed

lemma edge_readings: "stored_readings edge_state = map steady edge_temperatures"
proof -
  have "stored_readings edge_state
      = stored_readings initial_state @ map snd (map (\<lambda>t. (clock0, steady t)) edge_temperatures)"
    unfolding edge_state_def
    by (rule ingest_all_data)
      (simp_all add: edge_temperatures_def steady_def normal_reading_def initial_state_def
        historyLimit_def)
  then show ?thesis
    by (simp add: stored_readings_def initial_state_def comp_def)
qed

lemma jump_readings: "stored_readings jump_state = map steady jump_temperatures"
  by (simp add: stored_readings_def jump_history steady_entry_def comp_def)

text \<open>
  The history of the counterexample lies within the amended claim below: no record differs
  from the newest one by more than a ceiling, while the second record differs from its own
  predecessor by more than the temperature ceiling. There the amended claim gives 100, as
  the code does, and the claim as first stated gives 90.
\<close>

lemma jump_state_within_newest:
  "10 \<le> length (stored_readings jump_state)
   \<and> list_all (within_rate_ceilings (last (stored_readings jump_state)))
        (stored_readings jump_state)
   \<and> \<not> within_rate_ceilings (stored_readings jump_state ! 0) (stored_readings jump_state ! 1)
   \<and> filter within_absolute_bounds (stored_readings jump_state) = stored_readings jump_state"
  by (simp add: jump_readings jump_temperatures_def steady_def normal_reading_def
      within_rate_ceilings_def within_absolute_bounds_def delta_exceeds_def lt_def gt_def
      js_lt_def js_gt_def js_sub_def js_abs_def)

text \<open>
  C5, amended. For every history of ten or more retained records in which no record
  differs from the newest retained record by more than a rate-of-change ceiling in any
  metric, the data-quality report's accuracy sub-score equals the percentage (rendered
  with one decimal, then rounded to the nearest integer) of retained records whose stored
  reading passes the absolute-bound check. A record's own historical predecessor plays no
  part: the report validates every stored reading against the module state of the moment
  the report is generated, whose last record is the newest one. Histories in which some
  record is further than a ceiling from the newest one are left out: there the answer
  hangs on the rate-of-change comparison of C2.
\<close>

theorem accuracy_score_absolute_bounds:
  assumes "10 \<le> length (stored_readings st)"
    and "list_all (within_rate_ceilings (last (stored_readings st))) (stored_readings st)"
  shows "\<exists>m. dq_metrics (generateDataQualityReport st) = Some m
     \<and> q_score (accuracy m) = Some (of_int (round (round_to 1
          (real (length (filter within_absolute_bounds (stored_readings st)))
           / real (length (stored_readings st)) * 100))))"
proof -
  let ?h = "processedDataHistory st"
  let ?k = "length (filter (\<lambda>item. validateDataAccuracy st (p_data item)) ?h)"
  have len: "10 \<le> length ?h" using assms(1) by (simp add: stored_readings_def)
  have k: "?k \<le> length ?h" by simp
  have n: "0 < length ?h" using len by linarith
  then have ne: "?h \<noteq> []" by simp
  have kk: "?k = length (filter within_absolute_bounds (stored_readings st))"
    by (simp add: validateDataAccuracy_bounds_only stored_readings_def filter_map comp_def)
  have "calculateDataAccuracy st = percentage_score ?k (length ?h)"
    by (simp add: calculateDataAccuracy_def count_accurate_filter ne)
  then have "q_score (calculateDataAccuracy st) = Some (of_int (round (round_to 1
          (real ?k / real (length ?h) * 100))))"
    by (simp add: percentage_score_eq[OF k n])
  then show ?thesis
    using len unfolding kk by (simp add: generateDataQualityReport_def Let_def stored_readings_def)
qed

text \<open>
  Ten readings with temperatures 151, then nine times 150: each is within the ceilings of
  the newest, the first is beyond the absolute maximum 150 and is the one record not
  counted, and the sub-score is 90.
\<close>

theorem accuracy_score_absolute_bounds_witness:
  "10 \<le> length (stored_readings edge_state)
   \<and> list_all (within_rate_ceilings (last (stored_readings edge_state)))
        (stored_readings edge_state)
   \<and> \<not> within_absolute_bounds (stored_readings edge_state ! 0)
   \<and> length (filter within_absolute_bounds (stored_readings edge_state)) = 9
   \<and> (\<exists>m. dq_metrics (generateDataQualityReport edge_state) = Some m
          \<and> q_score (accuracy m) = Some 90)"
proof -
  have l: "10 \<le> length (stored_readings edge_state)"
    by (simp add: edge_readings edge_temperatures_def)
  have r: "list_all (within_rate_ceilings (last (stored_readings edge_state)))
      (stored_readings edge_state)"
    by (simp add: edge_readings edge_temperatures_def steady_def normal_reading_def
        within_rate_ceilings_def delta_exceeds_def js_gt_def js_sub_def js_abs_def)
  have f: "filter within_absolute_bounds (stored_readings edge_state)
      = map steady [150, 150, 150, 150, 150, 150, 150, 150, 150]"
    by (simp add: edge_readings edge_temperatures_def steady_def normal_reading_def
        within_absolute_bounds_def lt_def gt_def js_lt_def js_gt_def)
  have b: "\<not> within_absolute_bounds (stored_readings edge_state ! 0)"
    by (simp add: edge_readings edge_temperatures_def steady_def normal_reading_def
        within_absolute_bounds_def lt_def gt_def js_lt_def js_gt_def)
  have len: "length (stored_readings edge_state) = 10"
    by (simp add: edge_readings edge_temperatures_def)
  have v: "round (round_to 1 (real (9::nat) / real (10::nat) * 100)) = 90"
    by (simp add: round_to_def round_def)
  show ?thesis
    using accuracy_score_absolute_bounds[OF l r] l r b v
    by (simp add: f len)
qed

end
